theory Spec2Isabelle
  imports Complex_Main
begin

section \<open>The spatial Gompertz objective function (spatial_gompertz.cpp)\<close>

text \<open>
  The source is one TMB template: four function templates over a numeric type
  \<^verbatim>\<open>Type\<close> (\<^verbatim>\<open>isNA\<close>, \<^verbatim>\<open>dlognorm\<close>, \<^verbatim>\<open>d_poisson_lognormal\<close> and the
  \<^verbatim>\<open>operator()\<close> of \<^verbatim>\<open>objective_function\<close>). The embedding instantiates
  \<^verbatim>\<open>Type\<close> with the real numbers, so that \<open>exp\<close>, \<open>ln\<close> and \<open>sqrt\<close> are the
  mathematical functions: rounding, overflow, infinities and NaN of IEEE doubles are not
  represented. The R missing value \<^verbatim>\<open>NA\<close>, which the source detects with
  \<^verbatim>\<open>R_IsNA\<close>, is a constructor of its own. Where the source divides by zero
  (\<open>rho = 1\<close>) or takes the logarithm of a number that is not positive it computes an
  infinity or NaN, and HOL some unspecified real: the theorems below either relate the
  reported entries to each other, whatever that value is, or exclude the case as the
  claim does (\<open>rho \<noteq> 1\<close>, a positive count).

  The C++ checks no index. A read or write outside a container, a read of a vector
  entry that was never assigned and a sum or product of containers of different shapes
  are the places where the behaviour of the source is undefined; the embedding stops
  there with a \<open>fault\<close> that names the container and the index, so that every
  such place is a branch of the model.
\<close>

subsection \<open>Faults and containers\<close>

datatype fault =
    OutOfBounds string int
  | Uninitialised string int
  | ShapeMismatch string
  | NegativeSize string

definition bind :: "fault + 'a \<Rightarrow> ('a \<Rightarrow> fault + 'b) \<Rightarrow> fault + 'b" where
  "bind m f = (case m of Inl e \<Rightarrow> Inl e | Inr v \<Rightarrow> f v)"

text \<open>
  \<^verbatim>\<open>v(i)\<close> and \<^verbatim>\<open>v(i) = a\<close> on a \<^verbatim>\<open>vector\<close> whose entries all hold values,
  with the \<^verbatim>\<open>int\<close> index of the source.
\<close>

definition elem :: "string \<Rightarrow> 'a list \<Rightarrow> int \<Rightarrow> fault + 'a" where
  "elem nm v i = (if 0 \<le> i \<and> i < int (length v) then Inr (v ! nat i) else Inl (OutOfBounds nm i))"

text \<open>
  A vector that the source declares with a size only (\<^verbatim>\<open>vector<Type> v(n)\<close>) holds
  indeterminate values until they are assigned: its entries are \<open>None\<close> until then.
\<close>

definition alloc :: "string \<Rightarrow> int \<Rightarrow> fault + 'a option list" where
  "alloc nm n = (if n < 0 then Inl (NegativeSize nm) else Inr (replicate (nat n) None))"

definition rd :: "string \<Rightarrow> 'a option list \<Rightarrow> int \<Rightarrow> fault + 'a" where
  "rd nm v i = bind (elem nm v i) (\<lambda>c. case c of None \<Rightarrow> Inl (Uninitialised nm i) | Some a \<Rightarrow> Inr a)"

definition upd :: "string \<Rightarrow> 'a list \<Rightarrow> int \<Rightarrow> 'a \<Rightarrow> fault + 'a list" where
  "upd nm v i a = (if 0 \<le> i \<and> i < int (length v) then Inr (v[nat i := a]) else Inl (OutOfBounds nm i))"

text \<open>\<^verbatim>\<open>vector<Type> v(n); v.setZero();\<close>\<close>

definition zeros :: "string \<Rightarrow> int \<Rightarrow> fault + real list" where
  "zeros nm n = (if n < 0 then Inl (NegativeSize nm) else Inr (replicate (nat n) 0))"

definition wr :: "string \<Rightarrow> 'a option list \<Rightarrow> int \<Rightarrow> 'a \<Rightarrow> fault + 'a option list" where
  "wr nm v i a = (if 0 \<le> i \<and> i < int (length v) then Inr (v[nat i := Some a]) else Inl (OutOfBounds nm i))"

text \<open>
  Two-dimensional containers (\<^verbatim>\<open>matrix\<close>, \<^verbatim>\<open>Eigen::SparseMatrix\<close>, and the
  two-dimensional \<^verbatim>\<open>array\<close>) are their extents and their coefficient at each position;
  a sparse matrix has coefficient zero where it stores nothing.
\<close>

record 'a grid =
  nrow :: nat
  ncol :: nat
  cell :: "nat \<Rightarrow> nat \<Rightarrow> 'a"

definition elem2 :: "string \<Rightarrow> 'a grid \<Rightarrow> int \<Rightarrow> int \<Rightarrow> fault + 'a" where
  "elem2 nm m i j =
     (if 0 \<le> i \<and> i < int (nrow m) then
        if 0 \<le> j \<and> j < int (ncol m) then Inr (cell m (nat i) (nat j))
        else Inl (OutOfBounds nm j)
      else Inl (OutOfBounds nm i))"

definition alloc2 :: "string \<Rightarrow> int \<Rightarrow> int \<Rightarrow> fault + 'a option grid" where
  "alloc2 nm r c =
     (if r < 0 \<or> c < 0 then Inl (NegativeSize nm)
      else Inr \<lparr>nrow = nat r, ncol = nat c, cell = (\<lambda>_ _. None)\<rparr>)"

definition rd2 :: "string \<Rightarrow> 'a option grid \<Rightarrow> int \<Rightarrow> int \<Rightarrow> fault + 'a" where
  "rd2 nm m i j =
     bind (elem2 nm m i j) (\<lambda>c. case c of None \<Rightarrow> Inl (Uninitialised nm i) | Some a \<Rightarrow> Inr a)"

definition wr2 :: "string \<Rightarrow> 'a option grid \<Rightarrow> int \<Rightarrow> int \<Rightarrow> 'a \<Rightarrow> fault + 'a option grid" where
  "wr2 nm m i j a =
     (if 0 \<le> i \<and> i < int (nrow m) then
        if 0 \<le> j \<and> j < int (ncol m) then
          Inr (m\<lparr>cell := (\<lambda>x t. if x = nat i \<and> t = nat j then Some a else cell m x t)\<rparr>)
        else Inl (OutOfBounds nm j)
      else Inl (OutOfBounds nm i))"

text \<open>\<^verbatim>\<open>A.col(t)\<close>: the column \<open>t\<close> as a vector.\<close>

definition column :: "'a grid \<Rightarrow> nat \<Rightarrow> 'a list" where
  "column m t = map (\<lambda>x. cell m x t) [0..<nrow m]"

definition col :: "string \<Rightarrow> 'a grid \<Rightarrow> int \<Rightarrow> fault + 'a list" where
  "col nm m t =
     (if 0 \<le> t \<and> t < int (ncol m) then Inr (column m (nat t)) else Inl (OutOfBounds nm t))"

text \<open>Scalar multiple and sum of sparse matrices; the sum needs equal extents.\<close>

definition scale_sp :: "real \<Rightarrow> real grid \<Rightarrow> real grid" where
  "scale_sp k A = A\<lparr>cell := (\<lambda>i j. k * cell A i j)\<rparr>"

definition plus_sp :: "real grid \<Rightarrow> real grid \<Rightarrow> fault + real grid" where
  "plus_sp A B =
     (if nrow A = nrow B \<and> ncol A = ncol B
      then Inr \<lparr>nrow = nrow A, ncol = ncol A, cell = (\<lambda>i j. cell A i j + cell B i j)\<rparr>
      else Inl (ShapeMismatch ''+''))"

text \<open>\<^verbatim>\<open>X * a.matrix()\<close>: a dense matrix times a vector as a column.\<close>

definition times_vec :: "real grid \<Rightarrow> real list \<Rightarrow> fault + real list" where
  "times_vec X a =
     (if ncol X = length a
      then Inr (map (\<lambda>x. \<Sum>p\<leftarrow>[0..<ncol X]. cell X x p * a ! p) [0..<nrow X])
      else Inl (ShapeMismatch ''*''))"

text \<open>\<^verbatim>\<open>for(int i=0; i<n; i++) body\<close> over a state, stopping at the first fault.\<close>

fun for_loop :: "(int \<Rightarrow> 's \<Rightarrow> fault + 's) \<Rightarrow> int list \<Rightarrow> 's \<Rightarrow> fault + 's" where
  "for_loop body [] s = Inr s"
| "for_loop body (i # is) s = bind (body i s) (for_loop body is)"

definition for_range :: "int \<Rightarrow> (int \<Rightarrow> 's \<Rightarrow> fault + 's) \<Rightarrow> 's \<Rightarrow> fault + 's" where
  "for_range n body s = for_loop body (map int [0..<nat n]) s"

subsection \<open>Data and parameters\<close>

text \<open>An entry of the count vector: the R missing value, or a number.\<close>

datatype datum = NA | Num real

fun isNA :: "datum \<Rightarrow> bool" where
  "isNA NA = True"
| "isNA (Num x) = False"

text \<open>
  The \<^verbatim>\<open>DATA_*\<close> and \<^verbatim>\<open>PARAMETER*\<close> declarations of the template, in the order
  of the source. \<open>Epsilon_input\<close> is the two-dimensional \<^verbatim>\<open>PARAMETER_ARRAY\<close>.
\<close>

record inputs =
  Options_vec :: "int list"
  n_i :: int
  n_x :: int
  n_t :: int
  n_p :: int
  x_s :: "int list"
  c_i :: "datum list"
  t_i :: "int list"
  X_xp :: "real grid"
  G0 :: "real grid"
  G1 :: "real grid"
  G2 :: "real grid"
  alpha :: "real list"
  phi :: real
  log_tau_E :: real
  log_tau_O :: real
  log_kappa :: real
  rho :: real
  theta_z :: "real list"
  Epsilon_input :: "real grid"
  Omega_input :: "real list"

text \<open>
  The densities that the template takes from the TMB library are parameters of the
  embedding: \<^verbatim>\<open>GMRF(Q)(x)\<close>, \<^verbatim>\<open>dpois(x, lambda, give_log)\<close> and
  \<^verbatim>\<open>dnorm(x, mean, sd, give_log)\<close>.
\<close>

type_synonym gmrf = "real grid \<Rightarrow> real list \<Rightarrow> real"
type_synonym dpois = "real \<Rightarrow> real \<Rightarrow> int \<Rightarrow> real"
type_synonym dnorm = "real \<Rightarrow> real \<Rightarrow> real \<Rightarrow> int \<Rightarrow> real"

subsection \<open>dlognorm and d_poisson_lognormal\<close>

text \<open>
  \<^verbatim>\<open>give_log\<close> is an \<^verbatim>\<open>int\<close> compared with \<^verbatim>\<open>false\<close> and \<^verbatim>\<open>true\<close>, that is
  with 0 and 1; \<^verbatim>\<open>Return\<close> is assigned by neither \<^verbatim>\<open>if\<close> for any other value.
\<close>

definition dlognorm :: "dnorm \<Rightarrow> real \<Rightarrow> real \<Rightarrow> real \<Rightarrow> int \<Rightarrow> fault + real" where
  "dlognorm dnorm x log_mean log_sd give_log =
     (let Return = None;
          Return = (if give_log = 0 then Some (dnorm (ln x) log_mean (exp log_sd) 0 / x) else Return);
          Return = (if give_log = 1 then Some (dnorm (ln x) log_mean (exp log_sd) 1 - ln x) else Return)
      in case Return of None \<Rightarrow> Inl (Uninitialised ''Return'' 0) | Some r \<Rightarrow> Inr r)"

definition d_poisson_lognormal :: "dnorm \<Rightarrow> real \<Rightarrow> real \<Rightarrow> real \<Rightarrow> real \<Rightarrow> int \<Rightarrow> fault + real" where
  "d_poisson_lognormal dnorm x log_mean log_sd log_clustersize give_log =
     (let log_notencounterprob = - 1 * exp log_mean / exp log_clustersize;
          encounterprob = 1 - exp log_notencounterprob
      in bind (if x = 0 then Inr log_notencounterprob
               else bind (dlognorm dnorm x (log_mean - ln encounterprob) log_sd 1)
                      (\<lambda>d. Inr (ln encounterprob + d)))
           (\<lambda>Return. if give_log = 1 then Inr Return else Inr (exp Return)))"

subsection \<open>The objective function\<close>

text \<open>Spatial parameters (the source names the constant \<^verbatim>\<open>pi\<close> and the range \<^verbatim>\<open>Range\<close>).\<close>

definition kappa2 :: "inputs \<Rightarrow> real" where
  "kappa2 inp = exp (2 * log_kappa inp)"

definition kappa4 :: "inputs \<Rightarrow> real" where
  "kappa4 inp = kappa2 inp * kappa2 inp"

definition pi_c :: real where
  "pi_c = 3.141592"

definition Range_c :: "inputs \<Rightarrow> real" where
  "Range_c inp = sqrt 8 / exp (log_kappa inp)"

definition SigmaE :: "inputs \<Rightarrow> real" where
  "SigmaE inp = 1 / sqrt (4 * pi_c * exp (2 * log_tau_E inp) * exp (2 * log_kappa inp))"

definition SigmaO :: "inputs \<Rightarrow> real" where
  "SigmaO inp = 1 / sqrt (4 * pi_c * exp (2 * log_tau_O inp) * exp (2 * log_kappa inp))"

definition Q :: "inputs \<Rightarrow> fault + real grid" where
  "Q inp =
     bind (plus_sp (scale_sp (kappa4 inp) (G0 inp)) (scale_sp (2 * kappa2 inp) (G1 inp)))
       (\<lambda>S. plus_sp S (G2 inp))"

text \<open>The local vectors of the function body.\<close>

record locals =
  jnll_comp :: "real list"
  eta_x :: "real option list"
  Omega_x :: "real option list"
  Equil_x :: "real option list"
  log_chat_i :: "real option list"
  Epsilon_xt :: "real option grid"
  jnll_i :: "real list"

text \<open>
  Lines 80 to 82 and 94 to 98: the declarations. \<^verbatim>\<open>jnll_i\<close> is declared and set to
  zero at lines 135 and 136 only; it is the empty list until then.
\<close>

definition declarations :: "inputs \<Rightarrow> fault + locals" where
  "declarations inp =
     bind (zeros ''jnll_comp'' 3) (\<lambda>comp.
     bind (alloc ''eta_x'' (n_x inp)) (\<lambda>eta.
     bind (alloc ''Omega_x'' (n_x inp)) (\<lambda>Omega.
     bind (alloc ''Equil_x'' (n_x inp)) (\<lambda>Equil.
     bind (alloc ''log_chat_i'' (n_i inp)) (\<lambda>chat.
     bind (alloc2 ''Epsilon_xt'' (n_x inp) (n_t inp)) (\<lambda>Eps.
     Inr \<lparr>jnll_comp = comp, eta_x = eta, Omega_x = Omega, Equil_x = Equil,
          log_chat_i = chat, Epsilon_xt = Eps, jnll_i = []\<rparr>))))))"

text \<open>Lines 108 to 114: the probability of the random fields.\<close>

definition add_comp :: "int \<Rightarrow> real \<Rightarrow> locals \<Rightarrow> fault + locals" where
  "add_comp k v st =
     bind (elem ''jnll_comp'' (jnll_comp st) k) (\<lambda>old.
     bind (upd ''jnll_comp'' (jnll_comp st) k (old + v)) (\<lambda>comp.
     Inr (st\<lparr>jnll_comp := comp\<rparr>)))"

definition random_fields :: "gmrf \<Rightarrow> inputs \<Rightarrow> real grid \<Rightarrow> locals \<Rightarrow> fault + locals" where
  "random_fields GMRF inp Qm st =
     bind (add_comp 0 (GMRF Qm (Omega_input inp)) st)
       (for_range (n_t inp) (\<lambda>t s.
          bind (col ''Epsilon_input'' (Epsilon_input inp) t) (\<lambda>c.
          add_comp 1 (GMRF Qm c) s)))"

text \<open>Lines 125 to 132: the transformed fields.\<close>

definition transform_vertex :: "inputs \<Rightarrow> int \<Rightarrow> locals \<Rightarrow> fault + locals" where
  "transform_vertex inp x st =
     bind (elem ''Omega_input'' (Omega_input inp) x) (\<lambda>raw.
     bind (wr ''Omega_x'' (Omega_x st) x (raw / exp (log_tau_O inp))) (\<lambda>Omega.
     bind (rd ''eta_x'' (eta_x st) x) (\<lambda>e.
     bind (rd ''Omega_x'' Omega x) (\<lambda>w.
     bind (wr ''Equil_x'' (Equil_x st) x ((e + w) / (1 - rho inp))) (\<lambda>Equil.
     for_range (n_t inp) (\<lambda>t s.
        bind (elem2 ''Epsilon_input'' (Epsilon_input inp) x t) (\<lambda>v.
        bind (wr2 ''Epsilon_xt'' (Epsilon_xt s) x t (v / exp (log_tau_E inp))) (\<lambda>Eps.
        Inr (s\<lparr>Epsilon_xt := Eps\<rparr>))))
       (st\<lparr>Omega_x := Omega, Equil_x := Equil\<rparr>))))))"

definition transform :: "inputs \<Rightarrow> locals \<Rightarrow> fault + locals" where
  "transform inp st =
     bind (times_vec (X_xp inp) (alpha inp)) (\<lambda>eta.
     for_range (n_x inp) (transform_vertex inp) (st\<lparr>eta_x := map Some eta\<rparr>))"

text \<open>Lines 140 and 141: the log of the expected count of observation \<open>i\<close>.\<close>

definition propagate :: "inputs \<Rightarrow> int \<Rightarrow> locals \<Rightarrow> fault + real option list" where
  "propagate inp i st =
     bind (elem ''t_i'' (t_i inp) i) (\<lambda>t.
     bind (if t = 0 then
             bind (elem ''x_s'' (x_s inp) i) (\<lambda>s.
             bind (rd ''Equil_x'' (Equil_x st) s) (\<lambda>q.
             bind (rd2 ''Epsilon_xt'' (Epsilon_xt st) s t) (\<lambda>v.
             wr ''log_chat_i'' (log_chat_i st) i (phi inp + q + v))))
           else Inr (log_chat_i st)) (\<lambda>chat.
     if t > 0 then
       bind (rd ''log_chat_i'' chat (i - 1)) (\<lambda>prev.
       bind (elem ''x_s'' (x_s inp) i) (\<lambda>s.
       bind (rd ''eta_x'' (eta_x st) s) (\<lambda>e.
       bind (rd ''Omega_x'' (Omega_x st) s) (\<lambda>w.
       bind (rd2 ''Epsilon_xt'' (Epsilon_xt st) s t) (\<lambda>v.
       wr ''log_chat_i'' chat i (rho inp * prev + (e + w) + v))))))
     else Inr chat))"

text \<open>Lines 142 to 145: the contribution of observation \<open>i\<close> to the likelihood.\<close>

definition likelihood ::
  "dpois \<Rightarrow> dnorm \<Rightarrow> inputs \<Rightarrow> int \<Rightarrow> real option list \<Rightarrow> real list \<Rightarrow> fault + real list" where
  "likelihood dpois dnorm inp i chat contrib =
     bind (elem ''c_i'' (c_i inp) i) (\<lambda>c.
     if \<not> isNA c then
       case c of NA \<Rightarrow> Inr contrib | Num y \<Rightarrow>
         bind (elem ''Options_vec'' (Options_vec inp) 0) (\<lambda>model.
         bind (if model = 0 then
                 bind (rd ''log_chat_i'' chat i) (\<lambda>l.
                 bind (elem ''jnll_i'' contrib i) (\<lambda>old.
                 upd ''jnll_i'' contrib i (old - dpois y (exp l) 1)))
               else Inr contrib) (\<lambda>contrib.
         if model = 1 then
           bind (rd ''log_chat_i'' chat i) (\<lambda>l.
           bind (elem ''theta_z'' (theta_z inp) 0) (\<lambda>z0.
           bind (elem ''theta_z'' (theta_z inp) 1) (\<lambda>z1.
           bind (d_poisson_lognormal dnorm y l z0 z1 1) (\<lambda>d.
           bind (elem ''jnll_i'' contrib i) (\<lambda>old.
           upd ''jnll_i'' contrib i (old - d))))))
         else Inr contrib))
     else Inr contrib)"

definition observation :: "dpois \<Rightarrow> dnorm \<Rightarrow> inputs \<Rightarrow> int \<Rightarrow> locals \<Rightarrow> fault + locals" where
  "observation dpois dnorm inp i st =
     bind (propagate inp i st) (\<lambda>chat.
     bind (likelihood dpois dnorm inp i chat (jnll_i st)) (\<lambda>contrib.
     Inr (st\<lparr>log_chat_i := chat, jnll_i := contrib\<rparr>)))"

text \<open>Lines 135 to 146: the likelihood contribution of the observations.\<close>

definition observations :: "dpois \<Rightarrow> dnorm \<Rightarrow> inputs \<Rightarrow> locals \<Rightarrow> fault + locals" where
  "observations dpois dnorm inp st =
     bind (zeros ''jnll_i'' (n_i inp)) (\<lambda>z.
     for_range (n_i inp) (observation dpois dnorm inp) (st\<lparr>jnll_i := z\<rparr>))"

text \<open>
  What \<^verbatim>\<open>REPORT\<close> hands to the caller, in the order of the source. \<^verbatim>\<open>REPORT\<close>
  copies a vector as it is: an entry that was never assigned is reported as \<open>None\<close>.
\<close>

record report =
  rep_jnll_comp :: "real list"
  rep_jnll :: real
  rep_Range :: real
  rep_SigmaE :: real
  rep_SigmaO :: real
  rep_rho :: real
  rep_Epsilon_xt :: "real option grid"
  rep_Omega_x :: "real option list"
  rep_Equil_x :: "real option list"
  rep_log_chat_i :: "real option list"
  rep_jnll_i :: "real list"
  rep_theta_z :: "real list"
  rep_x_s :: "int list"
  rep_c_i :: "datum list"
  rep_t_i :: "int list"
  rep_alpha :: "real list"
  rep_phi :: real
  rep_log_tau_E :: real
  rep_log_tau_O :: real
  rep_log_kappa :: real
  rep_eta_x :: "real option list"

text \<open>
  The whole \<^verbatim>\<open>operator()\<close>: the value it returns (\<^verbatim>\<open>jnll\<close>) and what it reports.
\<close>

definition objective_function :: "gmrf \<Rightarrow> dpois \<Rightarrow> dnorm \<Rightarrow> inputs \<Rightarrow> fault + real \<times> report" where
  "objective_function GMRF dpois dnorm inp =
     bind (Q inp) (\<lambda>Qm.
     bind (declarations inp) (\<lambda>st.
     bind (random_fields GMRF inp Qm st) (\<lambda>st.
     bind (transform inp st) (\<lambda>st.
     bind (observations dpois dnorm inp st) (\<lambda>st.
     bind (upd ''jnll_comp'' (jnll_comp st) 2 (sum_list (jnll_i st))) (\<lambda>comp.
     let jnll = sum_list comp in
     Inr (jnll,
       \<lparr>rep_jnll_comp = comp, rep_jnll = jnll,
        rep_Range = Range_c inp, rep_SigmaE = SigmaE inp, rep_SigmaO = SigmaO inp,
        rep_rho = rho inp,
        rep_Epsilon_xt = Epsilon_xt st, rep_Omega_x = Omega_x st, rep_Equil_x = Equil_x st,
        rep_log_chat_i = log_chat_i st, rep_jnll_i = jnll_i st,
        rep_theta_z = theta_z inp, rep_x_s = x_s inp, rep_c_i = c_i inp, rep_t_i = t_i inp,
        rep_alpha = alpha inp, rep_phi = phi inp,
        rep_log_tau_E = log_tau_E inp, rep_log_tau_O = log_tau_O inp,
        rep_log_kappa = log_kappa inp, rep_eta_x = eta_x st\<rparr>)))))))"

text \<open>
  Two stretches of \<^verbatim>\<open>operator()\<close> on their own: lines 80 to 132, which is all
  that runs before the loop over the observations, and lines 135 to 146 with the loop
  stopped before round \<open>k\<close>.
\<close>

definition before_observations :: "gmrf \<Rightarrow> inputs \<Rightarrow> fault + locals" where
  "before_observations GMRF inp =
     bind (Q inp) (\<lambda>Qm.
     bind (declarations inp) (\<lambda>st.
     bind (random_fields GMRF inp Qm st) (\<lambda>st.
     transform inp st)))"

definition first_observations ::
  "dpois \<Rightarrow> dnorm \<Rightarrow> inputs \<Rightarrow> int \<Rightarrow> locals \<Rightarrow> fault + locals" where
  "first_observations dpois dnorm inp k st =
     bind (zeros ''jnll_i'' (n_i inp)) (\<lambda>z.
     for_range k (observation dpois dnorm inp) (st\<lparr>jnll_i := z\<rparr>))"

subsection \<open>Well-formed inputs\<close>

text \<open>
  The extents that the declarations of the template document: the sizes are not negative,
  the three basis matrices have the same extents, the data vectors hold \<open>n_i\<close>
  observations, the fields hold \<open>n_x\<close> vertices and \<open>n_t\<close> time steps, the option
  vector has its slot 0, the two nuisance parameters are there when the model is 1,
  every site index is a vertex and every time index lies below \<open>n_t\<close>. Nothing is
  said here about time indices from below.
\<close>

definition shapes_ok :: "inputs \<Rightarrow> bool" where
  "shapes_ok inp \<longleftrightarrow>
     0 \<le> n_i inp \<and> 0 \<le> n_x inp \<and> 0 \<le> n_t inp \<and>
     nrow (G1 inp) = nrow (G0 inp) \<and> ncol (G1 inp) = ncol (G0 inp) \<and>
     nrow (G2 inp) = nrow (G0 inp) \<and> ncol (G2 inp) = ncol (G0 inp) \<and>
     nat (n_i inp) \<le> length (x_s inp) \<and> nat (n_i inp) \<le> length (c_i inp) \<and>
     nat (n_i inp) \<le> length (t_i inp) \<and>
     nat (n_x inp) \<le> nrow (X_xp inp) \<and> ncol (X_xp inp) = length (alpha inp) \<and>
     nat (n_x inp) \<le> length (Omega_input inp) \<and>
     nat (n_x inp) \<le> nrow (Epsilon_input inp) \<and> nat (n_t inp) \<le> ncol (Epsilon_input inp) \<and>
     Options_vec inp \<noteq> [] \<and> (Options_vec inp ! 0 = 1 \<longrightarrow> 2 \<le> length (theta_z inp)) \<and>
     (\<forall>i<nat (n_i inp). 0 \<le> x_s inp ! i \<and> x_s inp ! i < n_x inp \<and> t_i inp ! i < n_t inp)"

text \<open>
  The same in two parts: the extents alone, and what is asked of the site index and
  of the time index of one observation.
\<close>

definition extents_ok :: "inputs \<Rightarrow> bool" where
  "extents_ok inp \<longleftrightarrow>
     0 \<le> n_i inp \<and> 0 \<le> n_x inp \<and> 0 \<le> n_t inp \<and>
     nrow (G1 inp) = nrow (G0 inp) \<and> ncol (G1 inp) = ncol (G0 inp) \<and>
     nrow (G2 inp) = nrow (G0 inp) \<and> ncol (G2 inp) = ncol (G0 inp) \<and>
     nat (n_i inp) \<le> length (x_s inp) \<and> nat (n_i inp) \<le> length (c_i inp) \<and>
     nat (n_i inp) \<le> length (t_i inp) \<and>
     nat (n_x inp) \<le> nrow (X_xp inp) \<and> ncol (X_xp inp) = length (alpha inp) \<and>
     nat (n_x inp) \<le> length (Omega_input inp) \<and>
     nat (n_x inp) \<le> nrow (Epsilon_input inp) \<and> nat (n_t inp) \<le> ncol (Epsilon_input inp) \<and>
     Options_vec inp \<noteq> [] \<and> (Options_vec inp ! 0 = 1 \<longrightarrow> 2 \<le> length (theta_z inp))"

definition index_ok :: "inputs \<Rightarrow> nat \<Rightarrow> bool" where
  "index_ok inp i \<longleftrightarrow> 0 \<le> x_s inp ! i \<and> x_s inp ! i < n_x inp \<and> t_i inp ! i < n_t inp"

text \<open>
  The ordering that the recursion relies on, in its weakest form: no time index is
  negative, and the first observation is at time 0.
\<close>

definition times_ok :: "inputs \<Rightarrow> bool" where
  "times_ok inp \<longleftrightarrow>
     (\<forall>i<nat (n_i inp). 0 \<le> t_i inp ! i) \<and> (0 < n_i inp \<longrightarrow> t_i inp ! 0 = 0)"

text \<open>
  What observation \<open>i\<close> needs of \<^verbatim>\<open>log_chat_i\<close>: with a positive time index, a
  predecessor whose entry was assigned; with a negative time index, that the likelihood
  does not read the entry (the count is missing, or the model is neither 0 nor 1).
\<close>

definition chain_ok :: "inputs \<Rightarrow> nat \<Rightarrow> bool" where
  "chain_ok inp i \<longleftrightarrow>
     (0 < t_i inp ! i \<longrightarrow> 0 < i \<and> 0 \<le> t_i inp ! (i - 1)) \<and>
     (t_i inp ! i < 0 \<longrightarrow>
        isNA (c_i inp ! i) \<or> (Options_vec inp ! 0 \<noteq> 0 \<and> Options_vec inp ! 0 \<noteq> 1))"

subsection \<open>Closed forms of the intermediate states\<close>

text \<open>
  The definitions of this subsection are not read off the source. They say in closed
  form what the locals hold at each stage of a run on an input of the documented
  extents, and the lemmas of the next section prove that the embedding computes
  exactly these values. \<open>Q_closed\<close> is the precision matrix, \<open>eta_closed\<close> the
  linear predictor, and \<open>Omega_closed\<close>, \<open>Equil_closed\<close> and \<open>Epsilon_closed\<close> the
  entries of the three fields; \<open>comp_closed\<close> is \<^verbatim>\<open>jnll_comp\<close> after \<open>k\<close> columns
  of \<open>Epsilon_input\<close>.
\<close>

definition Q_closed :: "inputs \<Rightarrow> real grid" where
  "Q_closed inp =
     \<lparr>nrow = nrow (G0 inp), ncol = ncol (G0 inp),
      cell = (\<lambda>i j. kappa4 inp * cell (G0 inp) i j + 2 * kappa2 inp * cell (G1 inp) i j
                     + cell (G2 inp) i j)\<rparr>"

definition eta_closed :: "inputs \<Rightarrow> real list" where
  "eta_closed inp =
     map (\<lambda>x. \<Sum>p\<leftarrow>[0..<ncol (X_xp inp)]. cell (X_xp inp) x p * alpha inp ! p)
       [0..<nrow (X_xp inp)]"

definition Omega_closed :: "inputs \<Rightarrow> nat \<Rightarrow> real" where
  "Omega_closed inp x = Omega_input inp ! x / exp (log_tau_O inp)"

definition Equil_closed :: "inputs \<Rightarrow> nat \<Rightarrow> real" where
  "Equil_closed inp x = (eta_closed inp ! x + Omega_closed inp x) / (1 - rho inp)"

definition Epsilon_closed :: "inputs \<Rightarrow> nat \<Rightarrow> nat \<Rightarrow> real" where
  "Epsilon_closed inp x t = cell (Epsilon_input inp) x t / exp (log_tau_E inp)"

definition comp_closed :: "gmrf \<Rightarrow> inputs \<Rightarrow> nat \<Rightarrow> real list" where
  "comp_closed GMRF inp k =
     [0 + GMRF (Q_closed inp) (Omega_input inp),
      0 + (\<Sum>t<k. GMRF (Q_closed inp) (column (Epsilon_input inp) t)),
      0]"

text \<open>The locals after \<open>k\<close> rounds of the loop of lines 126 to 132.\<close>

definition transformed :: "gmrf \<Rightarrow> inputs \<Rightarrow> nat \<Rightarrow> locals" where
  "transformed GMRF inp k =
     \<lparr>jnll_comp = comp_closed GMRF inp (nat (n_t inp)),
      eta_x = map Some (eta_closed inp),
      Omega_x = map (\<lambda>x. if x < k then Some (Omega_closed inp x) else None) [0..<nat (n_x inp)],
      Equil_x = map (\<lambda>x. if x < k then Some (Equil_closed inp x) else None) [0..<nat (n_x inp)],
      log_chat_i = replicate (nat (n_i inp)) None,
      Epsilon_xt = \<lparr>nrow = nat (n_x inp), ncol = nat (n_t inp),
        cell = (\<lambda>x t. if x < k \<and> t < nat (n_t inp) then Some (Epsilon_closed inp x t) else None)\<rparr>,
      jnll_i = []\<rparr>"

text \<open>
  The entry of \<^verbatim>\<open>log_chat_i\<close> after round \<open>i\<close> of the loop of lines 137 to 146:
  \<open>start\<close> at time 0, \<open>rho\<close> times the entry before plus \<open>drift\<close> at a positive
  time, and unassigned at a negative time or after an unassigned entry.
\<close>

definition start :: "inputs \<Rightarrow> nat \<Rightarrow> real" where
  "start inp i =
     phi inp + Equil_closed inp (nat (x_s inp ! i))
       + Epsilon_closed inp (nat (x_s inp ! i)) (nat (t_i inp ! i))"

definition drift :: "inputs \<Rightarrow> nat \<Rightarrow> real" where
  "drift inp i =
     (eta_closed inp ! nat (x_s inp ! i) + Omega_closed inp (nat (x_s inp ! i)))
       + Epsilon_closed inp (nat (x_s inp ! i)) (nat (t_i inp ! i))"

fun chat_closed :: "inputs \<Rightarrow> nat \<Rightarrow> real option" where
  "chat_closed inp 0 = (if t_i inp ! 0 = 0 then Some (start inp 0) else None)"
| "chat_closed inp (Suc i) =
     (if t_i inp ! Suc i = 0 then Some (start inp (Suc i))
      else if 0 < t_i inp ! Suc i
        then map_option (\<lambda>prev. rho inp * prev + drift inp (Suc i)) (chat_closed inp i)
      else None)"

text \<open>
  The value of \<^verbatim>\<open>d_poisson_lognormal\<close> with \<^verbatim>\<open>give_log = true\<close>, and the entry of
  \<^verbatim>\<open>jnll_i\<close> after round \<open>i\<close>.
\<close>

definition dpln_closed :: "dnorm \<Rightarrow> real \<Rightarrow> real \<Rightarrow> real \<Rightarrow> real \<Rightarrow> real" where
  "dpln_closed dnorm x m s k =
     (if x = 0 then - 1 * exp m / exp k
      else ln (1 - exp (- 1 * exp m / exp k))
           + (dnorm (ln x) (m - ln (1 - exp (- 1 * exp m / exp k))) (exp s) 1 - ln x))"

definition contribution :: "dpois \<Rightarrow> dnorm \<Rightarrow> inputs \<Rightarrow> nat \<Rightarrow> real" where
  "contribution dpois dnorm inp i =
     (case c_i inp ! i of
        NA \<Rightarrow> 0
      | Num y \<Rightarrow>
          if Options_vec inp ! 0 = 0 then 0 - dpois y (exp (the (chat_closed inp i))) 1
          else if Options_vec inp ! 0 = 1
            then 0 - dpln_closed dnorm y (the (chat_closed inp i)) (theta_z inp ! 0) (theta_z inp ! 1)
          else 0)"

text \<open>The locals after \<open>k\<close> rounds of the loop of lines 137 to 146.\<close>

definition observed :: "gmrf \<Rightarrow> dpois \<Rightarrow> dnorm \<Rightarrow> inputs \<Rightarrow> nat \<Rightarrow> locals" where
  "observed GMRF dpois dnorm inp k =
     (transformed GMRF inp (nat (n_x inp)))
       \<lparr>log_chat_i := map (\<lambda>i. if i < k then chat_closed inp i else None) [0..<nat (n_i inp)],
        jnll_i := map (\<lambda>i. if i < k then contribution dpois dnorm inp i else 0) [0..<nat (n_i inp)]\<rparr>"

text \<open>
  The fault of round \<open>k\<close> when it is the first that reads an entry of
  \<^verbatim>\<open>log_chat_i\<close> that is not there or was not assigned.
\<close>

definition fault_at :: "inputs \<Rightarrow> nat \<Rightarrow> fault" where
  "fault_at inp k =
     (if 0 < t_i inp ! k
      then if k = 0 then OutOfBounds ''log_chat_i'' (- 1)
           else Uninitialised ''log_chat_i'' (int k - 1)
      else Uninitialised ''log_chat_i'' (int k))"


text \<open>What the function returns and reports when no round faults.\<close>

definition reported :: "gmrf \<Rightarrow> dpois \<Rightarrow> dnorm \<Rightarrow> inputs \<Rightarrow> real \<times> report" where
  "reported GMRF dpois dnorm inp =
     (let st = observed GMRF dpois dnorm inp (nat (n_i inp));
          comp = (comp_closed GMRF inp (nat (n_t inp)))[2 := sum_list (jnll_i st)]
      in (sum_list comp,
       \<lparr>rep_jnll_comp = comp, rep_jnll = sum_list comp,
        rep_Range = Range_c inp, rep_SigmaE = SigmaE inp, rep_SigmaO = SigmaO inp,
        rep_rho = rho inp,
        rep_Epsilon_xt = Epsilon_xt st, rep_Omega_x = Omega_x st, rep_Equil_x = Equil_x st,
        rep_log_chat_i = log_chat_i st, rep_jnll_i = jnll_i st,
        rep_theta_z = theta_z inp, rep_x_s = x_s inp, rep_c_i = c_i inp, rep_t_i = t_i inp,
        rep_alpha = alpha inp, rep_phi = phi inp,
        rep_log_tau_E = log_tau_E inp, rep_log_tau_O = log_tau_O inp,
        rep_log_kappa = log_kappa inp, rep_eta_x = eta_x st\<rparr>))"

subsection \<open>A worked input\<close>

text \<open>
  Two vertices, three time steps, one covariate column of ones, no random effects:
  observations at vertex 0 at the times 0, 1 and 2 (the second with a missing count)
  and at vertex 1 at time 0.
\<close>

definition scenario :: inputs where
  "scenario =
     \<lparr>Options_vec = [0], n_i = 4, n_x = 2, n_t = 3, n_p = 1,
      x_s = [0, 0, 0, 1], c_i = [Num 3, NA, Num 0, Num 2], t_i = [0, 1, 2, 0],
      X_xp = \<lparr>nrow = 2, ncol = 1, cell = (\<lambda>x p. 1)\<rparr>,
      G0 = \<lparr>nrow = 2, ncol = 2, cell = (\<lambda>i j. if i = j then 1 else 0)\<rparr>,
      G1 = \<lparr>nrow = 2, ncol = 2, cell = (\<lambda>i j. 0)\<rparr>,
      G2 = \<lparr>nrow = 2, ncol = 2, cell = (\<lambda>i j. 0)\<rparr>,
      alpha = [1 / 2], phi = 1 / 10, log_tau_E = 0, log_tau_O = 0, log_kappa = 0,
      rho = 3 / 10, theta_z = [0, 0],
      Epsilon_input = \<lparr>nrow = 2, ncol = 3, cell = (\<lambda>x t. 0)\<rparr>,
      Omega_input = [0, 0]\<rparr>"

text \<open>The same observations with fields and scales that are not trivial.\<close>

definition scaled_scenario :: inputs where
  "scaled_scenario =
     scenario\<lparr>log_tau_E := ln 3, log_tau_O := ln 2,
       Epsilon_input := \<lparr>nrow = 2, ncol = 3, cell = (\<lambda>x t. 3)\<rparr>,
       Omega_input := [2, 4]\<rparr>"

text \<open>The same observations under a model flag that is neither 0 nor 1.\<close>

definition unknown_model_scenario :: inputs where
  "unknown_model_scenario = scenario\<lparr>Options_vec := [2]\<rparr>"

text \<open>The same observations, the missing one with a negative time index and the
  one after it at time 0.\<close>

definition negative_time_scenario :: inputs where
  "negative_time_scenario = scenario\<lparr>t_i := [0, - 1, 0, 0]\<rparr>"

text \<open>The same observations, the first one at time 1.\<close>

definition late_start_scenario :: inputs where
  "late_start_scenario = scenario\<lparr>t_i := [1, 1, 2, 0]\<rparr>"

text \<open>The same observations under the Poisson-lognormal model.\<close>

definition lognormal_scenario :: inputs where
  "lognormal_scenario = scenario\<lparr>Options_vec := [1]\<rparr>"

text \<open>The same observations, the missing one with a negative time index and the
  one after it at time 1.\<close>

definition unassigned_predecessor_scenario :: inputs where
  "unassigned_predecessor_scenario = scenario\<lparr>t_i := [0, - 1, 1, 0]\<rparr>"



text \<open>Constant stand-ins for the three densities of the library.\<close>

definition unit_gmrf :: gmrf where
  "unit_gmrf Qm x = 1"

definition unit_dpois :: dpois where
  "unit_dpois x lambda give_log = 1"

definition unit_dnorm :: dnorm where
  "unit_dnorm x mean sd give_log = 1"

section \<open>The run of the objective function\<close>

lemma bind_Inr [simp]: "bind (Inr v) f = f v"
  by (simp add: bind_def)

lemma bind_Inl [simp]: "bind (Inl e) f = Inl e"
  by (simp add: bind_def)

lemma bind_assoc: "bind (bind m f) g = bind m (\<lambda>v. bind (f v) g)"
  by (cases m) simp_all

lemma elem_nat [simp]: "k < length v \<Longrightarrow> elem nm v (int k) = Inr (v ! k)"
  by (simp add: elem_def)

lemma upd_nat [simp]: "k < length v \<Longrightarrow> upd nm v (int k) a = Inr (v[k := a])"
  by (simp add: upd_def)

lemma wr_nat [simp]: "k < length v \<Longrightarrow> wr nm v (int k) a = Inr (v[k := Some a])"
  by (simp add: wr_def)

lemma rd_Some: "0 \<le> i \<Longrightarrow> nat i < length v \<Longrightarrow> v ! nat i = Some a \<Longrightarrow> rd nm v i = Inr a"
  by (simp add: rd_def elem_def)

lemma rd_None:
  "0 \<le> i \<Longrightarrow> nat i < length v \<Longrightarrow> v ! nat i = None \<Longrightarrow> rd nm v i = Inl (Uninitialised nm i)"
  by (simp add: rd_def elem_def)

lemma rd_negative: "i < 0 \<Longrightarrow> rd nm v i = Inl (OutOfBounds nm i)"
  by (simp add: rd_def elem_def)

lemma for_loop_append:
  "for_loop body (xs @ ys) s = bind (for_loop body xs s) (for_loop body ys)"
proof (induction xs arbitrary: s)
  case Nil
  show ?case by simp
next
  case (Cons a xs)
  show ?case by (cases "body a s") (simp_all add: Cons.IH)
qed

lemma for_loop_snoc:
  "for_loop body (xs @ [x]) s = bind (for_loop body xs s) (body x)"
proof -
  have "for_loop body [x] = body x"
    by (rule ext) (simp add: bind_def split: sum.splits)
  then show ?thesis by (simp add: for_loop_append)
qed

lemma for_range_0 [simp]: "for_range 0 body s = Inr s"
  by (simp add: for_range_def)

lemma for_range_Suc:
  "for_range (int (Suc k)) body s = bind (for_range (int k) body s) (body (int k))"
proof -
  have "nat (int (Suc k)) = Suc k" by simp
  then show ?thesis unfolding for_range_def
    by (simp only: upt_Suc_append [OF le0] map_append list.map for_loop_snoc nat_int)
qed

lemma upt_split:
  assumes "k < (n::nat)"
  shows "[0..<n] = [0..<k] @ k # [Suc k..<n]"
proof -
  from assms obtain d where n: "n = k + d" and d: "0 < d"
    by (auto dest: less_imp_add_positive)
  have "[0..<k + d] = [0..<k] @ [k..<k + d]" by (rule upt_add_eq_append) simp
  also have "[k..<k + d] = k # [Suc k..<k + d]" using d by (simp add: upt_conv_Cons)
  finally show ?thesis by (simp add: n)
qed

text \<open>A round that faults ends the loop with its fault.\<close>

lemma for_range_fault:
  assumes "k < nat n" and "for_range (int k) body s = Inr s'" and "body (int k) s' = Inl e"
  shows "for_range n body s = Inl e"
proof -
  have "for_range n body s =
      bind (for_loop body (map int [0..<k]) s) (for_loop body (int k # map int [Suc k..<nat n]))"
    by (simp add: for_range_def for_loop_append upt_split [OF assms(1)])
  then show ?thesis using assms(2,3) by (simp add: for_range_def)
qed

lemma Q_value:
  assumes "nrow (G1 inp) = nrow (G0 inp)" "ncol (G1 inp) = ncol (G0 inp)"
    "nrow (G2 inp) = nrow (G0 inp)" "ncol (G2 inp) = ncol (G0 inp)"
  shows "Q inp = Inr (Q_closed inp)"
  using assms by (simp add: Q_def Q_closed_def plus_sp_def scale_sp_def)

lemma declarations_value:
  assumes "0 \<le> n_i inp" "0 \<le> n_x inp" "0 \<le> n_t inp"
  shows "declarations inp =
    Inr \<lparr>jnll_comp = [0, 0, 0], eta_x = replicate (nat (n_x inp)) None,
         Omega_x = replicate (nat (n_x inp)) None, Equil_x = replicate (nat (n_x inp)) None,
         log_chat_i = replicate (nat (n_i inp)) None,
         Epsilon_xt = \<lparr>nrow = nat (n_x inp), ncol = nat (n_t inp), cell = (\<lambda>_ _. None)\<rparr>,
         jnll_i = []\<rparr>"
  using assms by (simp add: declarations_def zeros_def alloc_def alloc2_def numeral_3_eq_3)

lemma add_comp_0: "jnll_comp st = [a, b, c] \<Longrightarrow> add_comp 0 v st = Inr (st\<lparr>jnll_comp := [a + v, b, c]\<rparr>)"
  by (simp add: add_comp_def elem_def upd_def)

lemma add_comp_1: "jnll_comp st = [a, b, c] \<Longrightarrow> add_comp 1 v st = Inr (st\<lparr>jnll_comp := [a, b + v, c]\<rparr>)"
  by (simp add: add_comp_def elem_def upd_def)

lemma col_nat [simp]: "t < ncol m \<Longrightarrow> col nm m (int t) = Inr (column m t)"
  by (simp add: col_def)

lemma random_loop:
  assumes "jnll_comp st = [a, b, c]" and "k \<le> ncol (Epsilon_input inp)"
  shows "for_range (int k) (\<lambda>t s.
          bind (col ''Epsilon_input'' (Epsilon_input inp) t) (\<lambda>c.
          add_comp 1 (GMRF Qm c) s)) st
     = Inr (st\<lparr>jnll_comp := [a, b + (\<Sum>t<k. GMRF Qm (column (Epsilon_input inp) t)), c]\<rparr>)"
  using assms(2)
proof (induction k)
  case 0
  show ?case using assms(1) by simp
next
  case (Suc k)
  then have IH: "for_range (int k) (\<lambda>t s.
          bind (col ''Epsilon_input'' (Epsilon_input inp) t) (\<lambda>c.
          add_comp 1 (GMRF Qm c) s)) st
     = Inr (st\<lparr>jnll_comp := [a, b + (\<Sum>t<k. GMRF Qm (column (Epsilon_input inp) t)), c]\<rparr>)"
    and k: "k < ncol (Epsilon_input inp)" by simp_all
  show ?case
    by (subst for_range_Suc, subst IH) (simp add: k add_comp_1 add.assoc)
qed

lemma random_fields_value:
  assumes "jnll_comp st = [0, 0, 0]" and "0 \<le> n_t inp" and "nat (n_t inp) \<le> ncol (Epsilon_input inp)"
  shows "random_fields GMRF inp (Q_closed inp) st =
     Inr (st\<lparr>jnll_comp := comp_closed GMRF inp (nat (n_t inp))\<rparr>)"
proof -
  have n: "n_t inp = int (nat (n_t inp))" using assms(2) by simp
  show ?thesis
    unfolding random_fields_def
    apply (simp add: add_comp_0 [OF assms(1)])
    apply (subst n)
    apply (subst random_loop [where a = "0 + GMRF (Q_closed inp) (Omega_input inp)" and b = 0 and c = 0])
      apply (simp_all add: assms comp_closed_def)
    done
qed

lemma times_vec_value:
  "ncol (X_xp inp) = length (alpha inp) \<Longrightarrow> times_vec (X_xp inp) (alpha inp) = Inr (eta_closed inp)"
  by (simp add: times_vec_def eta_closed_def)

lemma map_upt_update:
  "k < n \<Longrightarrow> (map f [0..<n])[k := v] = map (f(k := v)) [0..<n]"
  by (rule nth_equalityI) (simp_all add: nth_list_update)

lemma wr2_nat [simp]:
  "x < nrow m \<Longrightarrow> t < ncol m \<Longrightarrow>
   wr2 nm m (int x) (int t) a =
     Inr (m\<lparr>cell := (\<lambda>x' t'. if x' = x \<and> t' = t then Some a else cell m x' t')\<rparr>)"
  by (simp add: wr2_def)

lemma elem2_nat [simp]:
  "x < nrow m \<Longrightarrow> t < ncol m \<Longrightarrow> elem2 nm m (int x) (int t) = Inr (cell m x t)"
  by (simp add: elem2_def)

lemma inner_loop:
  assumes "x < nrow (Epsilon_input inp)" "x < nrow (Epsilon_xt st)"
    and "j \<le> ncol (Epsilon_input inp)" "j \<le> ncol (Epsilon_xt st)"
  shows "for_range (int j) (\<lambda>t s.
        bind (elem2 ''Epsilon_input'' (Epsilon_input inp) (int x) t) (\<lambda>v.
        bind (wr2 ''Epsilon_xt'' (Epsilon_xt s) (int x) t (v / exp (log_tau_E inp))) (\<lambda>Eps.
        Inr (s\<lparr>Epsilon_xt := Eps\<rparr>)))) st
     = Inr (st\<lparr>Epsilon_xt := (Epsilon_xt st)\<lparr>cell := (\<lambda>x' t.
          if x' = x \<and> t < j then Some (Epsilon_closed inp x t) else cell (Epsilon_xt st) x' t)\<rparr>\<rparr>)"
  using assms(3,4)
proof (induction j)
  case 0
  show ?case by simp
next
  case (Suc j)
  then have IH: "for_range (int j) (\<lambda>t s.
        bind (elem2 ''Epsilon_input'' (Epsilon_input inp) (int x) t) (\<lambda>v.
        bind (wr2 ''Epsilon_xt'' (Epsilon_xt s) (int x) t (v / exp (log_tau_E inp))) (\<lambda>Eps.
        Inr (s\<lparr>Epsilon_xt := Eps\<rparr>)))) st
     = Inr (st\<lparr>Epsilon_xt := (Epsilon_xt st)\<lparr>cell := (\<lambda>x' t.
          if x' = x \<and> t < j then Some (Epsilon_closed inp x t) else cell (Epsilon_xt st) x' t)\<rparr>\<rparr>)"
    and j: "j < ncol (Epsilon_input inp)" "j < ncol (Epsilon_xt st)" by simp_all
  show ?case
    by (subst for_range_Suc, subst IH)
      (auto simp: j assms(1,2) Epsilon_closed_def fun_eq_iff less_Suc_eq)
qed

lemma inner_loop_all:
  assumes "x < nrow (Epsilon_input inp)" "x < nrow (Epsilon_xt st)" and "0 \<le> n_t inp"
    and "nat (n_t inp) \<le> ncol (Epsilon_input inp)" "nat (n_t inp) \<le> ncol (Epsilon_xt st)"
  shows "for_range (n_t inp) (\<lambda>t s.
        bind (elem2 ''Epsilon_input'' (Epsilon_input inp) (int x) t) (\<lambda>v.
        bind (wr2 ''Epsilon_xt'' (Epsilon_xt s) (int x) t (v / exp (log_tau_E inp))) (\<lambda>Eps.
        Inr (s\<lparr>Epsilon_xt := Eps\<rparr>)))) st
     = Inr (st\<lparr>Epsilon_xt := (Epsilon_xt st)\<lparr>cell := (\<lambda>x' t.
          if x' = x \<and> t < nat (n_t inp) then Some (Epsilon_closed inp x t)
          else cell (Epsilon_xt st) x' t)\<rparr>\<rparr>)"
  using inner_loop [OF assms(1,2,4,5)] assms(3) by simp

lemma transform_vertex_value:
  assumes "extents_ok inp" and "k < nat (n_x inp)"
  shows "transform_vertex inp (int k) (transformed GMRF inp k) = Inr (transformed GMRF inp (Suc k))"
proof -
  let ?st = "transformed GMRF inp k"
  have n: "0 \<le> n_t inp" using assms(1) by (simp add: extents_ok_def)
  have k: "k < length (Omega_input inp)" "k < nrow (X_xp inp)" "k < nrow (Epsilon_input inp)"
    and t: "nat (n_t inp) \<le> ncol (Epsilon_input inp)"
    using assms by (simp_all add: extents_ok_def)
  have 1: "elem ''Omega_input'' (Omega_input inp) (int k) = Inr (Omega_input inp ! k)"
    using k(1) by simp
  have 2: "wr ''Omega_x'' (Omega_x ?st) (int k) v = Inr ((Omega_x ?st)[k := Some v])" for v
    using assms(2) by (simp add: transformed_def)
  have 3: "rd ''eta_x'' (eta_x ?st) (int k) = Inr (eta_closed inp ! k)"
    using k(2) by (simp add: rd_def eta_closed_def transformed_def)
  have 4: "rd ''Omega_x'' ((Omega_x ?st)[k := Some v]) (int k) = Inr v" for v
    using assms(2) by (simp add: rd_def transformed_def)
  have 5: "wr ''Equil_x'' (Equil_x ?st) (int k) v = Inr ((Equil_x ?st)[k := Some v])" for v
    using assms(2) by (simp add: transformed_def)
  let ?st' = "?st\<lparr>Omega_x := (Omega_x ?st)[k := Some (Omega_closed inp k)],
                  Equil_x := (Equil_x ?st)[k := Some (Equil_closed inp k)]\<rparr>"
  have 6: "for_range (n_t inp) (\<lambda>t s.
        bind (elem2 ''Epsilon_input'' (Epsilon_input inp) (int k) t) (\<lambda>v.
        bind (wr2 ''Epsilon_xt'' (Epsilon_xt s) (int k) t (v / exp (log_tau_E inp))) (\<lambda>Eps.
        Inr (s\<lparr>Epsilon_xt := Eps\<rparr>)))) ?st'
     = Inr (?st'\<lparr>Epsilon_xt := (Epsilon_xt ?st')\<lparr>cell := (\<lambda>x' t.
          if x' = k \<and> t < nat (n_t inp) then Some (Epsilon_closed inp k t)
          else cell (Epsilon_xt ?st') x' t)\<rparr>\<rparr>)"
    by (rule inner_loop_all) (use assms(2) k t n in \<open>simp_all add: transformed_def\<close>)
  have 7: "?st'\<lparr>Epsilon_xt := (Epsilon_xt ?st')\<lparr>cell := (\<lambda>x' t.
          if x' = k \<and> t < nat (n_t inp) then Some (Epsilon_closed inp k t)
          else cell (Epsilon_xt ?st') x' t)\<rparr>\<rparr> = transformed GMRF inp (Suc k)"
    using assms(2) by (auto simp: transformed_def map_upt_update fun_eq_iff less_Suc_eq)
  show ?thesis
    unfolding transform_vertex_def
    by (simp only: 1 2 3 4 5 bind_Inr Omega_closed_def [symmetric] Equil_closed_def [symmetric] 6 7)
qed

lemma transform_loop:
  assumes "extents_ok inp" and "k \<le> nat (n_x inp)"
  shows "for_range (int k) (transform_vertex inp) (transformed GMRF inp 0) = Inr (transformed GMRF inp k)"
  using assms(2)
proof (induction k)
  case 0
  show ?case by simp
next
  case (Suc k)
  then have IH: "for_range (int k) (transform_vertex inp) (transformed GMRF inp 0)
      = Inr (transformed GMRF inp k)" and k: "k < nat (n_x inp)" by simp_all
  show ?case
    by (subst for_range_Suc, subst IH) (simp add: transform_vertex_value [OF assms(1) k])
qed

text \<open>The locals at line 133, after the fields are transformed.\<close>

lemma up_to_transform:
  assumes "extents_ok inp"
  shows "Q inp = Inr (Q_closed inp)"
    and "bind (declarations inp) (\<lambda>st. bind (random_fields GMRF inp (Q_closed inp) st) (transform inp))
       = Inr (transformed GMRF inp (nat (n_x inp)))"
proof -
  show "Q inp = Inr (Q_closed inp)"
    using assms by (intro Q_value) (simp_all add: extents_ok_def)
  have n: "0 \<le> n_i inp" "0 \<le> n_x inp" "0 \<le> n_t inp" "nat (n_t inp) \<le> ncol (Epsilon_input inp)"
    "ncol (X_xp inp) = length (alpha inp)"
    using assms by (simp_all add: extents_ok_def)
  let ?d = "\<lparr>jnll_comp = [0, 0, 0], eta_x = replicate (nat (n_x inp)) None,
         Omega_x = replicate (nat (n_x inp)) None, Equil_x = replicate (nat (n_x inp)) None,
         log_chat_i = replicate (nat (n_i inp)) None,
         Epsilon_xt = \<lparr>nrow = nat (n_x inp), ncol = nat (n_t inp), cell = (\<lambda>_ _. None)\<rparr>,
         jnll_i = []\<rparr>"
  have r: "random_fields GMRF inp (Q_closed inp) ?d
      = Inr (?d\<lparr>jnll_comp := comp_closed GMRF inp (nat (n_t inp))\<rparr>)"
    by (rule random_fields_value) (simp_all add: n)
  have z: "\<lparr>jnll_comp = comp_closed GMRF inp (nat (n_t inp)), eta_x = map Some (eta_closed inp),
         Omega_x = replicate (nat (n_x inp)) None, Equil_x = replicate (nat (n_x inp)) None,
         log_chat_i = replicate (nat (n_i inp)) None,
         Epsilon_xt = \<lparr>nrow = nat (n_x inp), ncol = nat (n_t inp), cell = (\<lambda>_ _. None)\<rparr>,
         jnll_i = []\<rparr>
      = transformed GMRF inp 0"
    by (simp add: transformed_def map_replicate_const)
  have l: "for_range (n_x inp) (transform_vertex inp) (transformed GMRF inp 0)
      = Inr (transformed GMRF inp (nat (n_x inp)))"
    using transform_loop [OF assms order_refl, of GMRF] n(2) by simp
  show "bind (declarations inp) (\<lambda>st. bind (random_fields GMRF inp (Q_closed inp) st) (transform inp))
       = Inr (transformed GMRF inp (nat (n_x inp)))"
    by (simp add: declarations_value [OF n(1,2,3)] r transform_def times_vec_value [OF n(5)] z l)
qed

lemma rd2_Some:
  "0 \<le> i \<Longrightarrow> nat i < nrow m \<Longrightarrow> 0 \<le> j \<Longrightarrow> nat j < ncol m \<Longrightarrow> cell m (nat i) (nat j) = Some a
   \<Longrightarrow> rd2 nm m i j = Inr a"
proof -
  assume "0 \<le> i" "nat i < nrow m" "0 \<le> j" "nat j < ncol m" "cell m (nat i) (nat j) = Some a"
  moreover from this have "i < int (nrow m)" "j < int (ncol m)" by linarith+
  ultimately show ?thesis by (simp add: rd2_def elem2_def)
qed

lemma dlognorm_log: "dlognorm dnorm x m s 1 = Inr (dnorm (ln x) m (exp s) 1 - ln x)"
  by (simp add: dlognorm_def)

lemma d_poisson_lognormal_log:
  "d_poisson_lognormal dnorm x m s k 1 = Inr (dpln_closed dnorm x m s k)"
  by (simp add: d_poisson_lognormal_def dpln_closed_def dlognorm_log Let_def)

lemma chat_closed_Some:
  assumes "\<forall>i\<le>k. chain_ok inp i" and "0 \<le> t_i inp ! k"
  shows "\<exists>p. chat_closed inp k = Some p"
  using assms
proof (induction k)
  case 0
  then show ?case by (simp add: chain_ok_def) 
next
  case (Suc k)
  show ?case
  proof (cases "t_i inp ! Suc k = 0")
    case True
    then show ?thesis by simp
  next
    case False
    with Suc.prems have pos: "0 < t_i inp ! Suc k" by simp
    from Suc.prems(1) have "chain_ok inp (Suc k)" by simp
    with pos have "0 \<le> t_i inp ! k" by (simp add: chain_ok_def)
    moreover from Suc.prems(1) have "\<forall>i\<le>k. chain_ok inp i" by simp
    ultimately obtain p where "chat_closed inp k = Some p" using Suc.IH by blast
    with pos False show ?thesis by simp
  qed
qed

lemma chat_closed_None: "t_i inp ! k < 0 \<Longrightarrow> chat_closed inp k = None"
  by (cases k) simp_all

text \<open>The transformed fields, read at a site and a time of an observation.\<close>

lemma fields_read:
  assumes "extents_ok inp" and "index_ok inp i"
  shows "rd ''Equil_x'' (Equil_x (observed GMRF dpois dnorm inp k)) (x_s inp ! i)
           = Inr (Equil_closed inp (nat (x_s inp ! i)))"
    and "rd ''Omega_x'' (Omega_x (observed GMRF dpois dnorm inp k)) (x_s inp ! i)
           = Inr (Omega_closed inp (nat (x_s inp ! i)))"
    and "rd ''eta_x'' (eta_x (observed GMRF dpois dnorm inp k)) (x_s inp ! i)
           = Inr (eta_closed inp ! nat (x_s inp ! i))"
    and "0 \<le> t_i inp ! i \<Longrightarrow>
         rd2 ''Epsilon_xt'' (Epsilon_xt (observed GMRF dpois dnorm inp k)) (x_s inp ! i) (t_i inp ! i)
           = Inr (Epsilon_closed inp (nat (x_s inp ! i)) (nat (t_i inp ! i)))"
proof -
  from assms(2) have s0: "0 \<le> x_s inp ! i" "x_s inp ! i < n_x inp" "t_i inp ! i < n_t inp"
    by (simp_all add: index_ok_def)
  then have s: "0 \<le> x_s inp ! i" "nat (x_s inp ! i) < nat (n_x inp)" "t_i inp ! i < n_t inp"
    by linarith+
  have "nat (n_x inp) \<le> nrow (X_xp inp)"
    using assms(1) by (simp add: extents_ok_def)
  with s(2) have "nat (x_s inp ! i) < nrow (X_xp inp)" by linarith
  then have x: "nat (x_s inp ! i) < length (eta_closed inp)"
    by (simp add: eta_closed_def)
  show "rd ''Equil_x'' (Equil_x (observed GMRF dpois dnorm inp k)) (x_s inp ! i)
           = Inr (Equil_closed inp (nat (x_s inp ! i)))"
    by (rule rd_Some) (use s in \<open>simp_all add: observed_def transformed_def\<close>)
  show "rd ''Omega_x'' (Omega_x (observed GMRF dpois dnorm inp k)) (x_s inp ! i)
           = Inr (Omega_closed inp (nat (x_s inp ! i)))"
    by (rule rd_Some) (use s in \<open>simp_all add: observed_def transformed_def\<close>)
  show "rd ''eta_x'' (eta_x (observed GMRF dpois dnorm inp k)) (x_s inp ! i)
           = Inr (eta_closed inp ! nat (x_s inp ! i))"
    by (rule rd_Some) (use s(1) x in \<open>simp_all add: observed_def transformed_def\<close>)
  show "rd2 ''Epsilon_xt'' (Epsilon_xt (observed GMRF dpois dnorm inp k)) (x_s inp ! i) (t_i inp ! i)
           = Inr (Epsilon_closed inp (nat (x_s inp ! i)) (nat (t_i inp ! i)))"
    if "0 \<le> t_i inp ! i"
    by (rule rd2_Some) (use s that in \<open>simp_all add: observed_def transformed_def\<close>)
qed

lemma observed_chat:
  "log_chat_i (observed GMRF dpois dnorm inp k)
     = map (\<lambda>i. if i < k then chat_closed inp i else None) [0..<nat (n_i inp)]"
  by (simp add: observed_def)

lemma observed_contrib:
  "jnll_i (observed GMRF dpois dnorm inp k)
     = map (\<lambda>i. if i < k then contribution dpois dnorm inp i else 0) [0..<nat (n_i inp)]"
  by (simp add: observed_def)

lemma shapes_obs:
  assumes "extents_ok inp" and "k < nat (n_i inp)"
  shows "k < length (t_i inp)" "k < length (x_s inp)" "k < length (c_i inp)"
  using assms by (simp_all add: extents_ok_def)

lemma chat_closed_zero: "t_i inp ! k = 0 \<Longrightarrow> chat_closed inp k = Some (start inp k)"
  by (cases k) simp_all

lemma chat_closed_pos:
  "0 < t_i inp ! k \<Longrightarrow> 0 < k \<Longrightarrow> chat_closed inp (k - 1) = Some p
   \<Longrightarrow> chat_closed inp k = Some (rho inp * p + drift inp k)"
  by (cases k) simp_all

lemma propagate_value:
  assumes "extents_ok inp" and "k < nat (n_i inp)"
    and "0 < t_i inp ! k \<longrightarrow> 0 < k \<and> (\<exists>p. chat_closed inp (k - 1) = Some p)"
    and "0 \<le> t_i inp ! k \<longrightarrow> index_ok inp k"
  shows "propagate inp (int k) (observed GMRF dpois dnorm inp k)
     = Inr ((log_chat_i (observed GMRF dpois dnorm inp k))[k := chat_closed inp k])"
proof -
  let ?st = "observed GMRF dpois dnorm inp k"
  let ?L = "log_chat_i ?st"
  note o = shapes_obs [OF assms(1,2)]
  have f: "rd ''Equil_x'' (Equil_x ?st) (x_s inp ! k) = Inr (Equil_closed inp (nat (x_s inp ! k)))"
    "rd ''Omega_x'' (Omega_x ?st) (x_s inp ! k) = Inr (Omega_closed inp (nat (x_s inp ! k)))"
    "rd ''eta_x'' (eta_x ?st) (x_s inp ! k) = Inr (eta_closed inp ! nat (x_s inp ! k))"
    "rd2 ''Epsilon_xt'' (Epsilon_xt ?st) (x_s inp ! k) (t_i inp ! k)
       = Inr (Epsilon_closed inp (nat (x_s inp ! k)) (nat (t_i inp ! k)))"
    if "0 \<le> t_i inp ! k"
  proof -
    from that assms(4) have i: "index_ok inp k" by simp
    from fields_read [OF assms(1) i, of GMRF dpois dnorm k] that
    show "rd ''Equil_x'' (Equil_x ?st) (x_s inp ! k) = Inr (Equil_closed inp (nat (x_s inp ! k)))"
      "rd ''Omega_x'' (Omega_x ?st) (x_s inp ! k) = Inr (Omega_closed inp (nat (x_s inp ! k)))"
      "rd ''eta_x'' (eta_x ?st) (x_s inp ! k) = Inr (eta_closed inp ! nat (x_s inp ! k))"
      "rd2 ''Epsilon_xt'' (Epsilon_xt ?st) (x_s inp ! k) (t_i inp ! k)
         = Inr (Epsilon_closed inp (nat (x_s inp ! k)) (nat (t_i inp ! k)))"
      by simp_all
  qed
  have len: "k < length ?L" using assms(2) by (simp add: observed_chat)
  consider (zero) "t_i inp ! k = 0" | (pos) "0 < t_i inp ! k" | (neg) "t_i inp ! k < 0"
    by linarith
  then show ?thesis
  proof cases
    case zero
    then have z: "0 \<le> t_i inp ! k" by simp
    have "rd2 ''Epsilon_xt'' (Epsilon_xt ?st) (x_s inp ! k) 0
        = Inr (Epsilon_closed inp (nat (x_s inp ! k)) (nat (t_i inp ! k)))"
      using f(4) [OF z] zero by simp
    then show ?thesis
      unfolding propagate_def
      by (simp add: o zero f(1) [OF z] len chat_closed_zero start_def)
  next
    case pos
    with assms(3) obtain p where k: "0 < k" and p: "chat_closed inp (k - 1) = Some p" by blast
    have "rd ''log_chat_i'' ?L (int k - 1) = Inr p"
    proof (rule rd_Some)
      show "0 \<le> int k - 1" using k by simp
      have n: "nat (int k - 1) = k - 1" by simp
      show "nat (int k - 1) < length ?L" using len by (simp add: n)
      show "?L ! nat (int k - 1) = Some p"
        using k assms(2) p by (simp add: n observed_chat)
    qed
    moreover have "t_i inp ! k \<noteq> 0" and z: "0 \<le> t_i inp ! k" using pos by simp_all
    ultimately show ?thesis
      unfolding propagate_def
      by (simp add: o pos f [OF z] len chat_closed_pos [OF pos k p] drift_def add.assoc)
  next
    case neg
    then have "t_i inp ! k \<noteq> 0" "\<not> 0 < t_i inp ! k" by simp_all
    moreover have "?L[k := chat_closed inp k] = ?L"
      using assms(2) by (simp add: chat_closed_None [OF neg] observed_chat list_update_same_conv)
    ultimately show ?thesis
      unfolding propagate_def by (simp add: o)
  qed
qed

lemma propagate_no_predecessor:
  assumes "extents_ok inp" and "0 < nat (n_i inp)" and "0 < t_i inp ! 0"
  shows "propagate inp 0 (observed GMRF dpois dnorm inp 0) = Inl (OutOfBounds ''log_chat_i'' (- 1))"
proof -
  note o = shapes_obs [OF assms(1,2)]
  have "elem ''t_i'' (t_i inp) 0 = Inr (t_i inp ! 0)" using o(1) by (simp add: elem_def)
  moreover have "t_i inp ! 0 \<noteq> 0" using assms(3) by simp
  ultimately show ?thesis
    unfolding propagate_def by (simp add: assms(3) rd_negative)
qed

lemma propagate_unassigned_predecessor:
  assumes "extents_ok inp" and "k < nat (n_i inp)" and "0 < t_i inp ! k" and "0 < k"
    and "chat_closed inp (k - 1) = None"
  shows "propagate inp (int k) (observed GMRF dpois dnorm inp k)
     = Inl (Uninitialised ''log_chat_i'' (int k - 1))"
proof -
  let ?L = "log_chat_i (observed GMRF dpois dnorm inp k)"
  note o = shapes_obs [OF assms(1,2)]
  have n: "nat (int k - 1) = k - 1" by simp
  have "rd ''log_chat_i'' ?L (int k - 1) = Inl (Uninitialised ''log_chat_i'' (int k - 1))"
  proof (rule rd_None)
    show "0 \<le> int k - 1" using assms(4) by simp
    show "nat (int k - 1) < length ?L" using assms(2) by (simp add: n observed_chat)
    show "?L ! nat (int k - 1) = None"
      using assms(2,4,5) by (simp add: n observed_chat)
  qed
  moreover have "t_i inp ! k \<noteq> 0" using assms(3) by simp
  ultimately show ?thesis
    unfolding propagate_def by (simp add: o assms(3))
qed

lemma likelihood_value:
  assumes "extents_ok inp" and "k < nat (n_i inp)"
    and "chat_closed inp k = None \<longrightarrow>
           isNA (c_i inp ! k) \<or> (Options_vec inp ! 0 \<noteq> 0 \<and> Options_vec inp ! 0 \<noteq> 1)"
  shows "likelihood dpois dnorm inp (int k)
           ((log_chat_i (observed GMRF dpois dnorm inp k))[k := chat_closed inp k])
           (jnll_i (observed GMRF dpois dnorm inp k))
     = Inr ((jnll_i (observed GMRF dpois dnorm inp k))[k := contribution dpois dnorm inp k])"
proof -
  let ?L = "(log_chat_i (observed GMRF dpois dnorm inp k))[k := chat_closed inp k]"
  let ?J = "jnll_i (observed GMRF dpois dnorm inp k)"
  note o = shapes_obs [OF assms(1,2)]
  have lenJ: "k < length ?J" and Jk: "?J ! k = 0" and lenL: "k < length ?L"
    using assms(2) by (simp_all add: observed_contrib observed_chat)
  have same: "?J[k := 0] = ?J" using Jk by (simp add: list_update_same_conv lenJ)
  have opt: "elem ''Options_vec'' (Options_vec inp) 0 = Inr (Options_vec inp ! 0)"
    using assms(1) by (simp add: elem_def extents_ok_def)
  have z: "elem ''theta_z'' (theta_z inp) 0 = Inr (theta_z inp ! 0)"
    "elem ''theta_z'' (theta_z inp) 1 = Inr (theta_z inp ! 1)"
    if "Options_vec inp ! 0 = 1"
  proof -
    from that have "2 \<le> length (theta_z inp)" using assms(1) by (simp add: extents_ok_def)
    then show "elem ''theta_z'' (theta_z inp) 0 = Inr (theta_z inp ! 0)"
      "elem ''theta_z'' (theta_z inp) 1 = Inr (theta_z inp ! 1)"
      by (auto simp: elem_def)
  qed
  have read: "rd ''log_chat_i'' ((log_chat_i (observed GMRF dpois dnorm inp k))[k := Some l]) (int k)
      = Inr l" for l
    by (rule rd_Some) (use lenL in simp_all)
  show ?thesis
  proof (cases "c_i inp ! k")
    case NA
    then show ?thesis
      unfolding likelihood_def by (simp add: o contribution_def same)
  next
    case (Num y)
    consider (poisson) "Options_vec inp ! 0 = 0" | (lognormal) "Options_vec inp ! 0 = 1"
      | (other) "Options_vec inp ! 0 \<noteq> 0" "Options_vec inp ! 0 \<noteq> 1"
      by blast
    then show ?thesis
    proof cases
      case poisson
      with assms(3) Num obtain l where l: "chat_closed inp k = Some l" by auto
      show ?thesis
        unfolding likelihood_def
        by (simp add: o Num opt poisson read lenJ Jk contribution_def l)
    next
      case lognormal
      with assms(3) Num obtain l where l: "chat_closed inp k = Some l" by auto
      show ?thesis
        unfolding likelihood_def
        by (simp add: o Num opt lognormal read z [OF lognormal] d_poisson_lognormal_log lenJ Jk
            contribution_def l)
    next
      case other
      then show ?thesis
        unfolding likelihood_def by (simp add: o Num opt contribution_def same)
    qed
  qed
qed

lemma likelihood_unassigned:
  assumes "extents_ok inp" and "k < nat (n_i inp)" and "chat_closed inp k = None"
    and "\<not> isNA (c_i inp ! k)" and "Options_vec inp ! 0 = 0 \<or> Options_vec inp ! 0 = 1"
  shows "likelihood dpois dnorm inp (int k)
           ((log_chat_i (observed GMRF dpois dnorm inp k))[k := chat_closed inp k])
           (jnll_i (observed GMRF dpois dnorm inp k))
     = Inl (Uninitialised ''log_chat_i'' (int k))"
proof -
  let ?L = "(log_chat_i (observed GMRF dpois dnorm inp k))[k := chat_closed inp k]"
  note o = shapes_obs [OF assms(1,2)]
  have opt: "elem ''Options_vec'' (Options_vec inp) 0 = Inr (Options_vec inp ! 0)"
    using assms(1) by (simp add: elem_def extents_ok_def)
  have read: "rd ''log_chat_i'' ((log_chat_i (observed GMRF dpois dnorm inp k))[k := None]) (int k)
      = Inl (Uninitialised ''log_chat_i'' (int k))"
    by (rule rd_None) (use assms(2) in \<open>simp_all add: observed_chat\<close>)
  from assms(4) obtain y where y: "c_i inp ! k = Num y" by (cases "c_i inp ! k") simp_all
  from assms(5) show ?thesis
    unfolding likelihood_def by (auto simp: o y opt read assms(3))
qed

lemma observed_Suc:
  assumes "k < nat (n_i inp)"
  shows "(observed GMRF dpois dnorm inp k)
      \<lparr>log_chat_i := (log_chat_i (observed GMRF dpois dnorm inp k))[k := chat_closed inp k],
       jnll_i := (jnll_i (observed GMRF dpois dnorm inp k))[k := contribution dpois dnorm inp k]\<rparr>
    = observed GMRF dpois dnorm inp (Suc k)"
  using assms by (auto simp: observed_def map_upt_update less_Suc_eq)

lemma chain_predecessor:
  assumes "\<forall>i\<le>k. chain_ok inp i"
  shows "0 < t_i inp ! k \<longrightarrow> 0 < k \<and> (\<exists>p. chat_closed inp (k - 1) = Some p)"
proof
  assume pos: "0 < t_i inp ! k"
  from assms have "chain_ok inp k" by simp
  with pos have k: "0 < k" and t: "0 \<le> t_i inp ! (k - 1)" by (simp_all add: chain_ok_def)
  from assms have "\<forall>i\<le>k - 1. chain_ok inp i" by simp
  from chat_closed_Some [OF this t] k
  show "0 < k \<and> (\<exists>p. chat_closed inp (k - 1) = Some p)" by simp
qed

lemma chain_likelihood:
  assumes "\<forall>i\<le>k. chain_ok inp i"
  shows "chat_closed inp k = None \<longrightarrow>
           isNA (c_i inp ! k) \<or> (Options_vec inp ! 0 \<noteq> 0 \<and> Options_vec inp ! 0 \<noteq> 1)"
proof
  assume none: "chat_closed inp k = None"
  have "t_i inp ! k < 0"
  proof (rule ccontr)
    assume "\<not> t_i inp ! k < 0"
    then have "0 \<le> t_i inp ! k" by simp
    from chat_closed_Some [OF assms this] none show False by simp
  qed
  moreover from assms have "chain_ok inp k" by simp
  ultimately show "isNA (c_i inp ! k) \<or> (Options_vec inp ! 0 \<noteq> 0 \<and> Options_vec inp ! 0 \<noteq> 1)"
    by (simp add: chain_ok_def)
qed

lemma observation_value:
  assumes "extents_ok inp" and "k < nat (n_i inp)" and "\<forall>i\<le>k. chain_ok inp i"
    and "0 \<le> t_i inp ! k \<longrightarrow> index_ok inp k"
  shows "observation dpois dnorm inp (int k) (observed GMRF dpois dnorm inp k)
     = Inr (observed GMRF dpois dnorm inp (Suc k))"
  unfolding observation_def
  by (simp only: propagate_value [OF assms(1,2) chain_predecessor [OF assms(3)] assms(4)]
      likelihood_value [OF assms(1,2) chain_likelihood [OF assms(3)]] bind_Inr
      observed_Suc [OF assms(2)])

lemma observation_loop:
  assumes "extents_ok inp" and "k \<le> nat (n_i inp)" and "\<forall>i<k. chain_ok inp i"
    and "\<forall>i<k. 0 \<le> t_i inp ! i \<longrightarrow> index_ok inp i"
  shows "for_range (int k) (observation dpois dnorm inp) (observed GMRF dpois dnorm inp 0)
     = Inr (observed GMRF dpois dnorm inp k)"
  using assms(2,3,4)
proof (induction k)
  case 0
  show ?case by simp
next
  case (Suc k)
  then have IH: "for_range (int k) (observation dpois dnorm inp) (observed GMRF dpois dnorm inp 0)
     = Inr (observed GMRF dpois dnorm inp k)"
    and k: "k < nat (n_i inp)" and c: "\<forall>i\<le>k. chain_ok inp i"
    and x: "0 \<le> t_i inp ! k \<longrightarrow> index_ok inp k"
    by (simp_all add: less_Suc_eq_le)
  show ?case
    by (subst for_range_Suc, subst IH) (simp add: observation_value [OF assms(1) k c x])
qed

text \<open>The first observation that breaks the chain stops the loop.\<close>

lemma observation_fault:
  assumes "extents_ok inp" and "k < nat (n_i inp)" and "\<forall>i<k. chain_ok inp i"
    and "\<not> chain_ok inp k"
  shows "observation dpois dnorm inp (int k) (observed GMRF dpois dnorm inp k)
     = Inl (if 0 < t_i inp ! k
            then if k = 0 then OutOfBounds ''log_chat_i'' (- 1)
                 else Uninitialised ''log_chat_i'' (int k - 1)
            else Uninitialised ''log_chat_i'' (int k))"
proof (cases "0 < t_i inp ! k")
  case True
  show ?thesis
  proof (cases "k = 0")
    case True
    with \<open>0 < t_i inp ! k\<close> assms(1,2) show ?thesis
      unfolding observation_def
      by (simp add: propagate_no_predecessor)
  next
    case False
    with True assms(4) have neg: "t_i inp ! (k - 1) < 0" by (simp add: chain_ok_def)
    have "propagate inp (int k) (observed GMRF dpois dnorm inp k)
        = Inl (Uninitialised ''log_chat_i'' (int k - 1))"
      by (rule propagate_unassigned_predecessor [OF assms(1,2) True _ chat_closed_None [OF neg]])
        (use False in simp)
    with True False show ?thesis
      unfolding observation_def by simp
  qed
next
  case False
  with assms(4) have neg: "t_i inp ! k < 0" and c: "\<not> isNA (c_i inp ! k)"
    and m: "Options_vec inp ! 0 = 0 \<or> Options_vec inp ! 0 = 1"
    by (auto simp: chain_ok_def)
  have p: "propagate inp (int k) (observed GMRF dpois dnorm inp k)
     = Inr ((log_chat_i (observed GMRF dpois dnorm inp k))[k := chat_closed inp k])"
    by (rule propagate_value [OF assms(1,2)]) (use neg in simp_all)
  show ?thesis
    unfolding observation_def
    by (simp only: p bind_Inr likelihood_unassigned [OF assms(1,2) chat_closed_None [OF neg] c m]
        bind_Inl False if_False)
qed

lemma observed_0:
  "(transformed GMRF inp (nat (n_x inp)))\<lparr>jnll_i := replicate (nat (n_i inp)) 0\<rparr>
     = observed GMRF dpois dnorm inp 0"
  by (simp add: observed_def transformed_def map_replicate_const)

lemma observations_value:
  assumes "extents_ok inp" and "\<forall>i<nat (n_i inp). chain_ok inp i"
    and "\<forall>i<nat (n_i inp). 0 \<le> t_i inp ! i \<longrightarrow> index_ok inp i"
  shows "observations dpois dnorm inp (transformed GMRF inp (nat (n_x inp)))
     = Inr (observed GMRF dpois dnorm inp (nat (n_i inp)))"
proof -
  have n: "0 \<le> n_i inp" using assms(1) by (simp add: extents_ok_def)
  have "for_range (int (nat (n_i inp))) (observation dpois dnorm inp) (observed GMRF dpois dnorm inp 0)
     = Inr (observed GMRF dpois dnorm inp (nat (n_i inp)))"
    by (rule observation_loop [OF assms(1) order_refl assms(2,3)])
  moreover note observed_0 [where GMRF = GMRF and inp = inp and dpois = dpois and dnorm = dnorm]
  ultimately show ?thesis
    unfolding observations_def using n by (simp add: zeros_def)
qed

lemma observations_fault:
  assumes "extents_ok inp" and "k < nat (n_i inp)" and "\<forall>i<k. chain_ok inp i"
    and "\<not> chain_ok inp k" and "\<forall>i<k. 0 \<le> t_i inp ! i \<longrightarrow> index_ok inp i"
  shows "observations dpois dnorm inp (transformed GMRF inp (nat (n_x inp))) = Inl (fault_at inp k)"
proof -
  have n: "0 \<le> n_i inp" using assms(1) by (simp add: extents_ok_def)
  have k: "k \<le> nat (n_i inp)" using assms(2) by simp
  have "for_range (n_i inp) (observation dpois dnorm inp) (observed GMRF dpois dnorm inp 0)
      = Inl (fault_at inp k)"
    unfolding fault_at_def
    by (rule for_range_fault [OF assms(2) observation_loop [OF assms(1) k assms(3,5)]
          observation_fault [OF assms(1-4)]])
  moreover note observed_0 [where GMRF = GMRF and inp = inp and dpois = dpois and dnorm = dnorm]
  ultimately show ?thesis
    unfolding observations_def using n by (simp add: zeros_def)
qed

lemma objective_function_unfold:
  assumes "extents_ok inp"
  shows "objective_function GMRF dpois dnorm inp =
     bind (observations dpois dnorm inp (transformed GMRF inp (nat (n_x inp)))) (\<lambda>st.
     bind (upd ''jnll_comp'' (jnll_comp st) 2 (sum_list (jnll_i st))) (\<lambda>comp.
     let jnll = sum_list comp in
     Inr (jnll,
       \<lparr>rep_jnll_comp = comp, rep_jnll = jnll,
        rep_Range = Range_c inp, rep_SigmaE = SigmaE inp, rep_SigmaO = SigmaO inp,
        rep_rho = rho inp,
        rep_Epsilon_xt = Epsilon_xt st, rep_Omega_x = Omega_x st, rep_Equil_x = Equil_x st,
        rep_log_chat_i = log_chat_i st, rep_jnll_i = jnll_i st,
        rep_theta_z = theta_z inp, rep_x_s = x_s inp, rep_c_i = c_i inp, rep_t_i = t_i inp,
        rep_alpha = alpha inp, rep_phi = phi inp,
        rep_log_tau_E = log_tau_E inp, rep_log_tau_O = log_tau_O inp,
        rep_log_kappa = log_kappa inp, rep_eta_x = eta_x st\<rparr>)))"
proof -
  note u = up_to_transform(1) [OF assms] up_to_transform(2) [OF assms, of GMRF]
  have "objective_function GMRF dpois dnorm inp =
     bind (bind (declarations inp) (\<lambda>st. bind (random_fields GMRF inp (Q_closed inp) st) (transform inp)))
       (\<lambda>st. bind (observations dpois dnorm inp st) (\<lambda>st.
     bind (upd ''jnll_comp'' (jnll_comp st) 2 (sum_list (jnll_i st))) (\<lambda>comp.
     let jnll = sum_list comp in
     Inr (jnll,
       \<lparr>rep_jnll_comp = comp, rep_jnll = jnll,
        rep_Range = Range_c inp, rep_SigmaE = SigmaE inp, rep_SigmaO = SigmaO inp,
        rep_rho = rho inp,
        rep_Epsilon_xt = Epsilon_xt st, rep_Omega_x = Omega_x st, rep_Equil_x = Equil_x st,
        rep_log_chat_i = log_chat_i st, rep_jnll_i = jnll_i st,
        rep_theta_z = theta_z inp, rep_x_s = x_s inp, rep_c_i = c_i inp, rep_t_i = t_i inp,
        rep_alpha = alpha inp, rep_phi = phi inp,
        rep_log_tau_E = log_tau_E inp, rep_log_tau_O = log_tau_O inp,
        rep_log_kappa = log_kappa inp, rep_eta_x = eta_x st\<rparr>))))"
    unfolding objective_function_def by (simp only: u(1) bind_Inr bind_assoc)
  then show ?thesis by (simp only: u(2) bind_Inr)
qed

lemma shapes_ok_iff:
  "shapes_ok inp \<longleftrightarrow> extents_ok inp \<and> (\<forall>i<nat (n_i inp). index_ok inp i)"
  unfolding shapes_ok_def extents_ok_def index_ok_def by (simp only: conj_assoc)

lemma shapes_extents: "shapes_ok inp \<Longrightarrow> extents_ok inp"
  by (simp add: shapes_ok_iff)

lemma shapes_index: "shapes_ok inp \<Longrightarrow> i < nat (n_i inp) \<Longrightarrow> index_ok inp i"
  by (simp add: shapes_ok_iff)

lemma objective_function_rounds:
  assumes "extents_ok inp" and "\<forall>i<nat (n_i inp). chain_ok inp i"
    and "\<forall>i<nat (n_i inp). 0 \<le> t_i inp ! i \<longrightarrow> index_ok inp i"
  shows "objective_function GMRF dpois dnorm inp = Inr (reported GMRF dpois dnorm inp)"
proof -
  have "upd ''jnll_comp'' (jnll_comp (observed GMRF dpois dnorm inp (nat (n_i inp)))) 2 v
      = Inr ((comp_closed GMRF inp (nat (n_t inp)))[2 := v])" for v
    by (simp add: upd_def observed_def transformed_def comp_closed_def)
  then show ?thesis
    by (simp add: objective_function_unfold [OF assms(1)] observations_value [OF assms]
        reported_def Let_def)
qed

lemma objective_function_value:
  assumes "shapes_ok inp" and "\<forall>i<nat (n_i inp). chain_ok inp i"
  shows "objective_function GMRF dpois dnorm inp = Inr (reported GMRF dpois dnorm inp)"
  by (rule objective_function_rounds [OF shapes_extents [OF assms(1)] assms(2)])
    (simp add: shapes_index [OF assms(1)])

lemma first_broken:
  assumes "\<not> (\<forall>i<n. chain_ok inp i)"
  shows "\<exists>k<n. (\<forall>i<k. chain_ok inp i) \<and> \<not> chain_ok inp k"
proof -
  from assms obtain j where j: "j < n" "\<not> chain_ok inp j" by blast
  define k where "k = (LEAST i. \<not> chain_ok inp i)"
  have 1: "\<not> chain_ok inp k" unfolding k_def using j(2) by (rule LeastI)
  have 2: "k \<le> j" unfolding k_def using j(2) by (rule Least_le)
  have 3: "\<forall>i<k. chain_ok inp i" unfolding k_def using not_less_Least by blast
  from 2 j(1) have "k < n" by simp
  with 1 3 show ?thesis by blast
qed

lemma objective_function_chain_fault:
  assumes "extents_ok inp" and "k < nat (n_i inp)" and "\<forall>i<k. chain_ok inp i"
    and "\<not> chain_ok inp k" and "\<forall>i<k. 0 \<le> t_i inp ! i \<longrightarrow> index_ok inp i"
  shows "objective_function GMRF dpois dnorm inp = Inl (fault_at inp k)"
  by (simp add: objective_function_unfold [OF assms(1)] observations_fault [OF assms])

lemma objective_function_fault:
  assumes "shapes_ok inp" and "k < nat (n_i inp)" and "\<forall>i<k. chain_ok inp i"
    and "\<not> chain_ok inp k"
  shows "objective_function GMRF dpois dnorm inp = Inl (fault_at inp k)"
  by (rule objective_function_chain_fault [OF shapes_extents [OF assms(1)] assms(2-4)])
    (use assms(2) in \<open>simp add: shapes_index [OF assms(1)]\<close>)

lemma objective_function_returns:
  assumes "shapes_ok inp" and "objective_function GMRF dpois dnorm inp = Inr r"
  shows "\<forall>i<nat (n_i inp). chain_ok inp i" and "r = reported GMRF dpois dnorm inp"
proof -
  show c: "\<forall>i<nat (n_i inp). chain_ok inp i"
  proof (rule ccontr)
    assume "\<not> (\<forall>i<nat (n_i inp). chain_ok inp i)"
    from first_broken [OF this] obtain k where "k < nat (n_i inp)" "\<forall>i<k. chain_ok inp i"
      "\<not> chain_ok inp k" by blast
    from objective_function_fault [OF assms(1) this] assms(2) show False by simp
  qed
  from objective_function_value [OF assms(1) c] assms(2)
  show "r = reported GMRF dpois dnorm inp" by simp
qed










text \<open>The two stretches are stretches of \<^verbatim>\<open>operator()\<close>.\<close>

lemma objective_function_stages:
  "objective_function GMRF dpois dnorm inp =
     bind (before_observations GMRF inp) (\<lambda>st.
     bind (first_observations dpois dnorm inp (n_i inp) st) (\<lambda>st.
     bind (upd ''jnll_comp'' (jnll_comp st) 2 (sum_list (jnll_i st))) (\<lambda>comp.
     let jnll = sum_list comp in
     Inr (jnll,
       \<lparr>rep_jnll_comp = comp, rep_jnll = jnll,
        rep_Range = Range_c inp, rep_SigmaE = SigmaE inp, rep_SigmaO = SigmaO inp,
        rep_rho = rho inp,
        rep_Epsilon_xt = Epsilon_xt st, rep_Omega_x = Omega_x st, rep_Equil_x = Equil_x st,
        rep_log_chat_i = log_chat_i st, rep_jnll_i = jnll_i st,
        rep_theta_z = theta_z inp, rep_x_s = x_s inp, rep_c_i = c_i inp, rep_t_i = t_i inp,
        rep_alpha = alpha inp, rep_phi = phi inp,
        rep_log_tau_E = log_tau_E inp, rep_log_tau_O = log_tau_O inp,
        rep_log_kappa = log_kappa inp, rep_eta_x = eta_x st\<rparr>))))"
  unfolding objective_function_def before_observations_def first_observations_def observations_def
  by (simp only: bind_assoc)



lemma times_chain:
  assumes "times_ok inp" and "i < nat (n_i inp)"
  shows "chain_ok inp i"
proof -
  from assms have t: "\<forall>j<nat (n_i inp). 0 \<le> t_i inp ! j" and z: "t_i inp ! 0 = 0"
    by (auto simp: times_ok_def)
  have "0 < i \<and> 0 \<le> t_i inp ! (i - 1)" if "0 < t_i inp ! i"
  proof -
    from that z have "i \<noteq> 0" by (metis less_irrefl)
    with t assms(2) show ?thesis by simp
  qed
  moreover have "\<not> t_i inp ! i < 0" using t assms(2) by (simp add: not_less)
  ultimately show ?thesis by (simp add: chain_ok_def)
qed

section \<open>Reading the report\<close>

lemma run:
  assumes "shapes_ok inp" and "times_ok inp"
  shows "objective_function GMRF dpois dnorm inp = Inr (reported GMRF dpois dnorm inp)"
  by (rule objective_function_value [OF assms(1)]) (simp add: times_chain [OF assms(2)])

lemma returns:
  assumes "shapes_ok inp" and "times_ok inp"
  shows "\<exists>v rep. objective_function GMRF dpois dnorm inp = Inr (v, rep)"
  using run [OF assms, of GMRF dpois dnorm] by (metis surjective_pairing)

lemma returned:
  assumes "shapes_ok inp" and "objective_function GMRF dpois dnorm inp = Inr (v, rep)"
  shows "\<forall>i<nat (n_i inp). chain_ok inp i" and "rep = snd (reported GMRF dpois dnorm inp)"
    and "v = fst (reported GMRF dpois dnorm inp)" and "Q inp = Inr (Q_closed inp)"
proof -
  note o = objective_function_returns [OF assms]
  show "\<forall>i<nat (n_i inp). chain_ok inp i" by (rule o(1))
  from o(2) [symmetric] show "rep = snd (reported GMRF dpois dnorm inp)"
    and "v = fst (reported GMRF dpois dnorm inp)" by simp_all
  show "Q inp = Inr (Q_closed inp)" by (rule up_to_transform(1) [OF shapes_extents [OF assms(1)]])
qed

lemma site_in_range:
  assumes "shapes_ok inp" and "i < nat (n_i inp)"
  shows "nat (x_s inp ! i) < nat (n_x inp)" and "0 \<le> t_i inp ! i \<Longrightarrow> nat (t_i inp ! i) < nat (n_t inp)"
proof -
  have "\<forall>i<nat (n_i inp). 0 \<le> x_s inp ! i \<and> x_s inp ! i < n_x inp \<and> t_i inp ! i < n_t inp"
    using assms(1) by (simp add: shapes_ok_def)
  with assms(2) have s: "0 \<le> x_s inp ! i" "x_s inp ! i < n_x inp" "t_i inp ! i < n_t inp"
    by blast+
  from s(1,2) show "nat (x_s inp ! i) < nat (n_x inp)" by linarith
  from s(3) show "0 \<le> t_i inp ! i \<Longrightarrow> nat (t_i inp ! i) < nat (n_t inp)" by linarith
qed

text \<open>The fields of the report, entry by entry.\<close>

lemma reported_fields:
  fixes GMRF dpois dnorm inp
  defines "rep \<equiv> snd (reported GMRF dpois dnorm inp)"
  shows "rep_eta_x rep = map Some (eta_closed inp)"
    and "x < nat (n_x inp) \<Longrightarrow> rep_Omega_x rep ! x = Some (Omega_closed inp x)"
    and "x < nat (n_x inp) \<Longrightarrow> rep_Equil_x rep ! x = Some (Equil_closed inp x)"
    and "x < nat (n_x inp) \<Longrightarrow> t < nat (n_t inp) \<Longrightarrow>
           cell (rep_Epsilon_xt rep) x t = Some (Epsilon_closed inp x t)"
    and "i < nat (n_i inp) \<Longrightarrow> rep_log_chat_i rep ! i = chat_closed inp i"
    and "i < nat (n_i inp) \<Longrightarrow> rep_jnll_i rep ! i = contribution dpois dnorm inp i"
    and "length (rep_log_chat_i rep) = nat (n_i inp)"
    and "length (rep_jnll_i rep) = nat (n_i inp)"
    and "length (rep_Omega_x rep) = nat (n_x inp)"
    and "length (rep_Equil_x rep) = nat (n_x inp)"
  by (simp_all add: rep_def reported_def Let_def observed_def transformed_def)

lemma reported_sums:
  "fst (reported GMRF dpois dnorm inp) = rep_jnll (snd (reported GMRF dpois dnorm inp))"
  "rep_jnll_comp (snd (reported GMRF dpois dnorm inp)) =
     [GMRF (Q_closed inp) (Omega_input inp),
      (\<Sum>t<nat (n_t inp). GMRF (Q_closed inp) (column (Epsilon_input inp) t)),
      sum_list (rep_jnll_i (snd (reported GMRF dpois dnorm inp)))]"
  "rep_jnll (snd (reported GMRF dpois dnorm inp)) =
     GMRF (Q_closed inp) (Omega_input inp)
     + (\<Sum>t<nat (n_t inp). GMRF (Q_closed inp) (column (Epsilon_input inp) t))
     + sum_list (rep_jnll_i (snd (reported GMRF dpois dnorm inp)))"
  by (simp_all add: reported_def Let_def comp_closed_def)

lemma eta_closed_nth:
  "x < nrow (X_xp inp) \<Longrightarrow>
   eta_closed inp ! x = (\<Sum>p\<leftarrow>[0..<ncol (X_xp inp)]. cell (X_xp inp) x p * alpha inp ! p)"
  by (simp add: eta_closed_def)

text \<open>The recursion of lines 140 and 141, read off the report.\<close>

lemma recursion_at:
  fixes GMRF dpois dnorm inp
  defines "rep \<equiv> snd (reported GMRF dpois dnorm inp)"
  assumes "shapes_ok inp" and "\<forall>j<nat (n_i inp). chain_ok inp j" and "i < nat (n_i inp)"
  shows "t_i inp ! i = 0 \<longrightarrow>
      (\<exists>q e. rep_Equil_x rep ! nat (x_s inp ! i) = Some q \<and>
             cell (rep_Epsilon_xt rep) (nat (x_s inp ! i)) 0 = Some e \<and>
             rep_log_chat_i rep ! i = Some (phi inp + q + e))"
    and "0 < t_i inp ! i \<longrightarrow> 0 < i \<and>
      (\<exists>prev e w v. rep_log_chat_i rep ! (i - 1) = Some prev \<and>
             rep_eta_x rep ! nat (x_s inp ! i) = Some e \<and>
             rep_Omega_x rep ! nat (x_s inp ! i) = Some w \<and>
             cell (rep_Epsilon_xt rep) (nat (x_s inp ! i)) (nat (t_i inp ! i)) = Some v \<and>
             rep_log_chat_i rep ! i = Some (rho inp * prev + (e + w) + v))"
proof -
  note s = site_in_range [OF assms(2,4)]
  note f = reported_fields [where GMRF = GMRF and dpois = dpois and dnorm = dnorm and inp = inp,
      folded rep_def]
  show "t_i inp ! i = 0 \<longrightarrow>
      (\<exists>q e. rep_Equil_x rep ! nat (x_s inp ! i) = Some q \<and>
             cell (rep_Epsilon_xt rep) (nat (x_s inp ! i)) 0 = Some e \<and>
             rep_log_chat_i rep ! i = Some (phi inp + q + e))"
  proof
    assume z: "t_i inp ! i = 0"
    with s(2) have "0 < nat (n_t inp)" by simp
    then show "\<exists>q e. rep_Equil_x rep ! nat (x_s inp ! i) = Some q \<and>
             cell (rep_Epsilon_xt rep) (nat (x_s inp ! i)) 0 = Some e \<and>
             rep_log_chat_i rep ! i = Some (phi inp + q + e)"
      using s(1) assms(4) z by (simp add: f chat_closed_zero start_def)
  qed
  show "0 < t_i inp ! i \<longrightarrow> 0 < i \<and>
      (\<exists>prev e w v. rep_log_chat_i rep ! (i - 1) = Some prev \<and>
             rep_eta_x rep ! nat (x_s inp ! i) = Some e \<and>
             rep_Omega_x rep ! nat (x_s inp ! i) = Some w \<and>
             cell (rep_Epsilon_xt rep) (nat (x_s inp ! i)) (nat (t_i inp ! i)) = Some v \<and>
             rep_log_chat_i rep ! i = Some (rho inp * prev + (e + w) + v))"
  proof
    assume pos: "0 < t_i inp ! i"
    have "\<forall>j\<le>i. chain_ok inp j" using assms(3,4) by simp
    from chain_predecessor [OF this] pos obtain p
      where i: "0 < i" and p: "chat_closed inp (i - 1) = Some p" by blast
    have t: "nat (t_i inp ! i) < nat (n_t inp)" using s(2) pos by simp
    have "nat (n_x inp) \<le> nrow (X_xp inp)" using assms(2) by (simp add: shapes_ok_def)
    with s(1) have "nat (x_s inp ! i) < nrow (X_xp inp)" by linarith
    then have e: "nat (x_s inp ! i) < length (eta_closed inp)" by (simp add: eta_closed_def)
    have "i - 1 < nat (n_i inp)" using assms(4) by simp
    then have "rep_log_chat_i rep ! (i - 1) = Some p" using p by (simp add: f)
    moreover have "rep_log_chat_i rep ! i = Some (rho inp * p + drift inp i)"
      using assms(4) by (simp add: f chat_closed_pos [OF pos i p])
    ultimately show "0 < i \<and>
      (\<exists>prev e w v. rep_log_chat_i rep ! (i - 1) = Some prev \<and>
             rep_eta_x rep ! nat (x_s inp ! i) = Some e \<and>
             rep_Omega_x rep ! nat (x_s inp ! i) = Some w \<and>
             cell (rep_Epsilon_xt rep) (nat (x_s inp ! i)) (nat (t_i inp ! i)) = Some v \<and>
             rep_log_chat_i rep ! i = Some (rho inp * prev + (e + w) + v))"
      using i s(1) t e by (simp add: f drift_def add.assoc)
  qed
qed

text \<open>The contribution of one observation, read off the report.\<close>

lemma contribution_at:
  fixes GMRF dpois dnorm inp
  defines "rep \<equiv> snd (reported GMRF dpois dnorm inp)"
  assumes "shapes_ok inp" and "\<forall>j<nat (n_i inp). chain_ok inp j" and "i < nat (n_i inp)"
  shows "isNA (c_i inp ! i) \<longrightarrow> rep_jnll_i rep ! i = 0"
    and "c_i inp ! i = Num y \<and> Options_vec inp ! 0 = 0 \<longrightarrow>
      (\<exists>l. rep_log_chat_i rep ! i = Some l \<and> rep_jnll_i rep ! i = - dpois y (exp l) 1)"
    and "c_i inp ! i = Num y \<and> Options_vec inp ! 0 = 1 \<longrightarrow>
      (\<exists>l d. rep_log_chat_i rep ! i = Some l \<and>
         d_poisson_lognormal dnorm y l (theta_z inp ! 0) (theta_z inp ! 1) 1 = Inr d \<and>
         rep_jnll_i rep ! i = - d)"
    and "Options_vec inp ! 0 \<noteq> 0 \<and> Options_vec inp ! 0 \<noteq> 1 \<longrightarrow> rep_jnll_i rep ! i = 0"
proof -
  note f = reported_fields [where GMRF = GMRF and dpois = dpois and dnorm = dnorm and inp = inp,
      folded rep_def]
  have c: "\<forall>j\<le>i. chain_ok inp j" using assms(3,4) by simp
  have some: "\<exists>l. chat_closed inp i = Some l"
    if "c_i inp ! i = Num y" "Options_vec inp ! 0 = 0 \<or> Options_vec inp ! 0 = 1"
    using chain_likelihood [OF c] that by (cases "chat_closed inp i") auto
  show "isNA (c_i inp ! i) \<longrightarrow> rep_jnll_i rep ! i = 0"
    using assms(4) by (cases "c_i inp ! i") (simp_all add: f contribution_def)
  show "c_i inp ! i = Num y \<and> Options_vec inp ! 0 = 0 \<longrightarrow>
      (\<exists>l. rep_log_chat_i rep ! i = Some l \<and> rep_jnll_i rep ! i = - dpois y (exp l) 1)"
  proof
    assume a: "c_i inp ! i = Num y \<and> Options_vec inp ! 0 = 0"
    with some obtain l where "chat_closed inp i = Some l" by blast
    with a assms(4) show "\<exists>l. rep_log_chat_i rep ! i = Some l \<and> rep_jnll_i rep ! i = - dpois y (exp l) 1"
      by (simp add: f contribution_def)
  qed
  show "c_i inp ! i = Num y \<and> Options_vec inp ! 0 = 1 \<longrightarrow>
      (\<exists>l d. rep_log_chat_i rep ! i = Some l \<and>
         d_poisson_lognormal dnorm y l (theta_z inp ! 0) (theta_z inp ! 1) 1 = Inr d \<and>
         rep_jnll_i rep ! i = - d)"
  proof
    assume a: "c_i inp ! i = Num y \<and> Options_vec inp ! 0 = 1"
    with some obtain l where "chat_closed inp i = Some l" by blast
    with a assms(4) show "\<exists>l d. rep_log_chat_i rep ! i = Some l \<and>
         d_poisson_lognormal dnorm y l (theta_z inp ! 0) (theta_z inp ! 1) 1 = Inr d \<and>
         rep_jnll_i rep ! i = - d"
      by (simp add: f contribution_def d_poisson_lognormal_log)
  qed
  show "Options_vec inp ! 0 \<noteq> 0 \<and> Options_vec inp ! 0 \<noteq> 1 \<longrightarrow> rep_jnll_i rep ! i = 0"
    using assms(4) by (cases "c_i inp ! i") (simp_all add: f contribution_def)
qed


lemma chain_ok_iff:
  "(\<forall>i<n. chain_ok inp i) \<longleftrightarrow>
   (\<forall>i<n. (0 < t_i inp ! i \<longrightarrow> 0 < i \<and> 0 \<le> t_i inp ! (i - 1)) \<and>
      (t_i inp ! i < 0 \<longrightarrow>
         isNA (c_i inp ! i) \<or> (Options_vec inp ! 0 \<noteq> 0 \<and> Options_vec inp ! 0 \<noteq> 1)))"
  by (simp add: chain_ok_def)

lemma fault_at_cases:
  assumes "k < nat (n_i inp)"
  shows "fault_at inp k = OutOfBounds ''log_chat_i'' (- 1) \<or>
    (\<exists>j. 0 \<le> j \<and> j < n_i inp \<and> fault_at inp k = Uninitialised ''log_chat_i'' j)"
proof (cases "0 < t_i inp ! k")
  case True
  show ?thesis
  proof (cases "k = 0")
    case True
    with \<open>0 < t_i inp ! k\<close> show ?thesis by (simp add: fault_at_def)
  next
    case False
    with True have "fault_at inp k = Uninitialised ''log_chat_i'' (int k - 1)"
      by (simp add: fault_at_def)
    moreover have "0 \<le> int k - 1" "int k - 1 < n_i inp" using False assms by linarith+
    ultimately show ?thesis by blast
  qed
next
  case False
  then have "fault_at inp k = Uninitialised ''log_chat_i'' (int k)"
    by (simp add: fault_at_def)
  moreover have "0 \<le> int k" "int k < n_i inp" using assms by linarith+
  ultimately show ?thesis by blast
qed

section \<open>The worked inputs\<close>

lemma less_4: "i < (4::nat) \<longleftrightarrow> i = 0 \<or> i = 1 \<or> i = 2 \<or> i = 3"
  by auto

lemma scenario_shapes: "shapes_ok scenario"
  by (auto simp: shapes_ok_def scenario_def less_4)

lemma scenario_times: "times_ok scenario"
  by (auto simp: times_ok_def scenario_def less_4)

lemma scenario_fields:
  "Equil_closed scenario 0 = 5 / 7" "Epsilon_closed scenario x t = 0"
  "eta_closed scenario ! 0 = 1 / 2" "Omega_closed scenario 0 = 0"
  "length (eta_closed scenario) = 2"
  by (simp_all add: Equil_closed_def Epsilon_closed_def Omega_closed_def eta_closed_def scenario_def)

lemma scenario_values:
  "nat (n_i scenario) = 4" "nat (n_x scenario) = 2" "nat (n_t scenario) = 3"
  "t_i scenario = [0, 1, 2, 0]" "x_s scenario = [0, 0, 0, 1]"
  "c_i scenario = [Num 3, NA, Num 0, Num 2]"
  "phi scenario = 1 / 10" "rho scenario = 3 / 10" "Options_vec scenario = [0]"
  "Omega_input scenario = [0, 0]" "log_kappa scenario = 0"
  "nrow (G0 scenario) = 2" "nrow (G1 scenario) = 2" "nrow (G2 scenario) = 2"
  "ncol (G0 scenario) = 2" "ncol (G1 scenario) = 2" "ncol (G2 scenario) = 2"
  "cell (G0 scenario) i j = (if i = j then 1 else 0)"
  "cell (G1 scenario) i j = 0" "cell (G2 scenario) i j = 0"
  "column (Epsilon_input scenario) t = [0, 0]"
  by (simp_all add: scenario_def column_def upt_rec)

lemma variant_shapes:
  "shapes_ok scaled_scenario" "shapes_ok unknown_model_scenario"
  "shapes_ok negative_time_scenario" "shapes_ok late_start_scenario"
  by (auto simp: shapes_ok_def scaled_scenario_def unknown_model_scenario_def
      negative_time_scenario_def late_start_scenario_def scenario_def less_4)

lemma variant_times: "times_ok scaled_scenario" "times_ok unknown_model_scenario"
  by (auto simp: times_ok_def scaled_scenario_def unknown_model_scenario_def scenario_def less_4)

lemma negative_time_chain: "\<forall>i<nat (n_i negative_time_scenario). chain_ok negative_time_scenario i"
  by (auto simp: chain_ok_def negative_time_scenario_def scenario_def less_4)

lemma more_variant_shapes:
  "shapes_ok lognormal_scenario" "shapes_ok unassigned_predecessor_scenario"
  by (auto simp: shapes_ok_def lognormal_scenario_def unassigned_predecessor_scenario_def
      scenario_def less_4)

lemma lognormal_times: "times_ok lognormal_scenario"
  by (auto simp: times_ok_def lognormal_scenario_def scenario_def less_4)




section \<open>The constant 3.141592\<close>

lemma arctan_series_terms:
  assumes "0 \<le> x" "x \<le> 1"
  shows "(\<lambda>n. 1 / real (n * 2 + 1) * x ^ (n * 2 + 1)) \<longlonglongrightarrow> 0"
    and "0 \<le> 1 / real (n * 2 + 1) * x ^ (n * 2 + 1)"
    and "1 / real (Suc n * 2 + 1) * x ^ (Suc n * 2 + 1) \<le> 1 / real (n * 2 + 1) * x ^ (n * 2 + 1)"
proof -
  have "\<bar>x\<bar> \<le> 1" using assms by simp
  then show "(\<lambda>n. 1 / real (n * 2 + 1) * x ^ (n * 2 + 1)) \<longlonglongrightarrow> 0"
    by (rule zeroseq_arctan_series)
  show "0 \<le> 1 / real (n * 2 + 1) * x ^ (n * 2 + 1)" using assms by simp
  have "x ^ (Suc n * 2 + 1) \<le> x ^ (n * 2 + 1)"
    using assms by (intro power_decreasing) simp_all
  moreover have "1 / real (Suc n * 2 + 1) \<le> 1 / real (n * 2 + 1)"
    by (simp add: field_simps)
  ultimately show "1 / real (Suc n * 2 + 1) * x ^ (Suc n * 2 + 1) \<le> 1 / real (n * 2 + 1) * x ^ (n * 2 + 1)"
    using assms by (intro mult_mono) simp_all
qed

lemma arctan_lower:
  assumes "0 \<le> x" "x \<le> 1"
  shows "(\<Sum>i<2 * n. (- 1) ^ i * (1 / real (i * 2 + 1) * x ^ (i * 2 + 1))) \<le> arctan x"
proof -
  have "\<bar>x\<bar> \<le> 1" using assms by simp
  from summable_Leibniz'(2) [of "\<lambda>n. 1 / real (n * 2 + 1) * x ^ (n * 2 + 1)" n,
      OF arctan_series_terms [OF assms]]
  show ?thesis by (simp only: arctan_series [OF \<open>\<bar>x\<bar> \<le> 1\<close>])
qed

lemma arctan_upper:
  assumes "0 \<le> x" "x \<le> 1"
  shows "arctan x \<le> x"
proof -
  have "\<bar>x\<bar> \<le> 1" using assms by simp
  from summable_Leibniz'(4) [of "\<lambda>n. 1 / real (n * 2 + 1) * x ^ (n * 2 + 1)" 0,
      OF arctan_series_terms [OF assms]]
  show ?thesis by (simp add: arctan_series [OF \<open>\<bar>x\<bar> \<le> 1\<close>])
qed

text \<open>The constant of the source lies below \<open>\<pi>\<close>, by Machin's formula.\<close>

lemma pi_c_less_pi: "pi_c < pi"
proof -
  have m: "pi = 16 * arctan (1 / 5) - 4 * arctan (1 / 239)" using machin by simp
  have l: "(\<Sum>i<2 * 3. (- 1) ^ i * (1 / real (i * 2 + 1) * (1 / 5) ^ (i * 2 + 1))) \<le> arctan (1 / 5)"
    by (rule arctan_lower) simp_all
  have u: "arctan (1 / 239) \<le> 1 / 239" by (rule arctan_upper) simp_all
  have "(3.141592::real) <
      16 * (\<Sum>i<2 * 3. (- 1) ^ i * (1 / real (i * 2 + 1) * (1 / 5) ^ (i * 2 + 1))) - 4 * (1 / 239)"
    by (simp add: lessThan_Suc eval_nat_numeral)
  also have "\<dots> \<le> 16 * arctan (1 / 5) - 4 * arctan (1 / 239)" using l u by simp
  finally show ?thesis using m by (simp add: pi_c_def)
qed

lemma Sigma_less:
  fixes a b :: real
  assumes "0 < a" "0 < b"
  shows "1 / sqrt (4 * pi * a * b) < 1 / sqrt (4 * pi_c * a * b)"
proof -
  have c: "0 < pi_c" by (simp add: pi_c_def)
  have "4 * pi_c * a * b < 4 * pi * a * b"
    using pi_c_less_pi assms by simp
  moreover have "0 < 4 * pi_c * a * b" using c assms by simp
  ultimately have "sqrt (4 * pi_c * a * b) < sqrt (4 * pi * a * b)"
    and "0 < sqrt (4 * pi_c * a * b)" by simp_all
  then show ?thesis by (simp add: frac_less2)
qed

section \<open>The claims\<close>

subsection \<open>The state propagator\<close>

text \<open>
  C1. For inputs of the documented extents: when no time index is negative and the first
  observation is at time 0, the function returns; and whenever it returns, every
  observation \<open>i\<close> at time 0 has
  \<open>log_chat_i(i) = phi + Equil_x(x_s(i)) + Epsilon_xt(x_s(i), 0)\<close>, and every observation
  \<open>i\<close> at a positive time has a predecessor \<open>i - 1\<close> in the array and
  \<open>log_chat_i(i) = rho * log_chat_i(i - 1) + (eta_x(x_s(i)) + Omega_x(x_s(i)))
  + Epsilon_xt(x_s(i), t_i(i))\<close>, whatever the site of observation \<open>i - 1\<close> is.
\<close>

theorem state_propagator:
  assumes "shapes_ok inp"
  shows "(times_ok inp \<longrightarrow> (\<exists>v rep. objective_function GMRF dpois dnorm inp = Inr (v, rep))) \<and>
    (\<forall>v rep. objective_function GMRF dpois dnorm inp = Inr (v, rep) \<longrightarrow>
      (\<forall>i<nat (n_i inp).
        (t_i inp ! i = 0 \<longrightarrow>
          (\<exists>q e. rep_Equil_x rep ! nat (x_s inp ! i) = Some q \<and>
             cell (rep_Epsilon_xt rep) (nat (x_s inp ! i)) 0 = Some e \<and>
             rep_log_chat_i rep ! i = Some (phi inp + q + e))) \<and>
        (0 < t_i inp ! i \<longrightarrow> 0 < i \<and>
          (\<exists>prev e w v. rep_log_chat_i rep ! (i - 1) = Some prev \<and>
             rep_eta_x rep ! nat (x_s inp ! i) = Some e \<and>
             rep_Omega_x rep ! nat (x_s inp ! i) = Some w \<and>
             cell (rep_Epsilon_xt rep) (nat (x_s inp ! i)) (nat (t_i inp ! i)) = Some v \<and>
             rep_log_chat_i rep ! i = Some (rho inp * prev + (e + w) + v)))))"
proof (intro conjI allI impI)
  assume "times_ok inp"
  from run [OF assms this, of GMRF dpois dnorm]
  show "\<exists>v rep. objective_function GMRF dpois dnorm inp = Inr (v, rep)"
    by (metis surjective_pairing)
next
  fix v rep i
  assume r: "objective_function GMRF dpois dnorm inp = Inr (v, rep)" and i: "i < nat (n_i inp)"
  note o = objective_function_returns [OF assms r]
  from o(2) [symmetric] have rep: "rep = snd (reported GMRF dpois dnorm inp)" by simp
  note rec = recursion_at [OF assms o(1) i, where GMRF = GMRF and dpois = dpois and dnorm = dnorm,
      folded rep]
  {
    assume "t_i inp ! i = 0"
    with rec(1) show "\<exists>q e. rep_Equil_x rep ! nat (x_s inp ! i) = Some q \<and>
             cell (rep_Epsilon_xt rep) (nat (x_s inp ! i)) 0 = Some e \<and>
             rep_log_chat_i rep ! i = Some (phi inp + q + e)" by blast
  }
  {
    assume "0 < t_i inp ! i"
    with rec(2) show "0 < i" by blast
  }
  {
    assume "0 < t_i inp ! i"
    with rec(2) show "\<exists>prev e w v. rep_log_chat_i rep ! (i - 1) = Some prev \<and>
             rep_eta_x rep ! nat (x_s inp ! i) = Some e \<and>
             rep_Omega_x rep ! nat (x_s inp ! i) = Some w \<and>
             cell (rep_Epsilon_xt rep) (nat (x_s inp ! i)) (nat (t_i inp ! i)) = Some v \<and>
             rep_log_chat_i rep ! i = Some (rho inp * prev + (e + w) + v)" by blast
  }
qed

theorem state_propagator_witness:
  "\<exists>v rep. objective_function (\<lambda>Q x. 0) (\<lambda>x lambda give_log. 0) (\<lambda>x mean sd give_log. 0) scenario
       = Inr (v, rep) \<and>
     rep_log_chat_i rep ! 0 = Some (57 / 70) \<and> rep_log_chat_i rep ! 1 = Some (521 / 700)"
proof -
  let ?run = "objective_function (\<lambda>Q x. 0) (\<lambda>x lambda give_log. 0) (\<lambda>x mean sd give_log. 0) scenario"
  note p = state_propagator [OF scenario_shapes, of "\<lambda>Q x. 0" "\<lambda>x lambda give_log. 0"
      "\<lambda>x mean sd give_log. 0"]
  from p scenario_times obtain v rep where r: "?run = Inr (v, rep)" by blast
  from run [OF scenario_shapes scenario_times] r
  have rep: "rep = snd (reported (\<lambda>Q x. 0) (\<lambda>x lambda give_log. 0) (\<lambda>x mean sd give_log. 0) scenario)"
    by simp
  note f = reported_fields [where inp = scenario and GMRF = "\<lambda>Q x. 0" and dpois = "\<lambda>x lambda give_log. 0"
      and dnorm = "\<lambda>x mean sd give_log. 0", folded rep]
  have n: "nat (n_i scenario) = 4" "nat (n_x scenario) = 2" "nat (n_t scenario) = 3"
    "t_i scenario = [0, 1, 2, 0]" "x_s scenario = [0, 0, 0, 1]"
    "phi scenario = 1 / 10" "rho scenario = 3 / 10"
    by (simp_all add: scenario_def)
  have fields: "rep_Equil_x rep ! 0 = Some (5 / 7)" "cell (rep_Epsilon_xt rep) 0 0 = Some 0"
    "rep_eta_x rep ! 0 = Some (1 / 2)" "rep_Omega_x rep ! 0 = Some 0"
    "cell (rep_Epsilon_xt rep) 0 (Suc 0) = Some 0"
    by (simp_all add: f n scenario_fields)
  from p r have all: "\<forall>i<nat (n_i scenario).
        (t_i scenario ! i = 0 \<longrightarrow>
          (\<exists>q e. rep_Equil_x rep ! nat (x_s scenario ! i) = Some q \<and>
             cell (rep_Epsilon_xt rep) (nat (x_s scenario ! i)) 0 = Some e \<and>
             rep_log_chat_i rep ! i = Some (phi scenario + q + e))) \<and>
        (0 < t_i scenario ! i \<longrightarrow> 0 < i \<and>
          (\<exists>prev e w v. rep_log_chat_i rep ! (i - 1) = Some prev \<and>
             rep_eta_x rep ! nat (x_s scenario ! i) = Some e \<and>
             rep_Omega_x rep ! nat (x_s scenario ! i) = Some w \<and>
             cell (rep_Epsilon_xt rep) (nat (x_s scenario ! i)) (nat (t_i scenario ! i)) = Some v \<and>
             rep_log_chat_i rep ! i = Some (rho scenario * prev + (e + w) + v)))"
    by blast
  from all [rule_format, of 0] obtain q :: real
    where "q * 7 = 5" and "rep_log_chat_i rep ! 0 = Some (1 / 10 + q)"
    by (auto simp: n fields)
  moreover from this have "q = 5 / 7" by simp
  ultimately have 0: "rep_log_chat_i rep ! 0 = Some (57 / 70)" by simp
  from all [rule_format, of 1] obtain prev :: real
    where "prev * 70 = 57" and "rep_log_chat_i rep ! 1 = Some (3 * prev / 10 + 1 / 2)"
    by (auto simp: n fields 0)
  moreover from this have "prev = 57 / 70" by simp
  ultimately have "rep_log_chat_i rep ! 1 = Some (521 / 700)" by simp
  with r 0 show ?thesis by blast
qed

subsection \<open>The precision builder\<close>

text \<open>
  C2. When the three basis matrices have the same extents, the precision matrix has
  these extents and the coefficients \<open>kappa^4 * G0 + 2 * kappa^2 * G1 + G2\<close> with
  \<open>kappa = exp log_kappa\<close>; for \<open>G0\<close> the identity and \<open>G1\<close>, \<open>G2\<close> zero it is
  \<open>kappa^4\<close> on the diagonal and zero elsewhere.
\<close>

theorem precision_builder:
  assumes "nrow (G1 inp) = nrow (G0 inp)" "ncol (G1 inp) = ncol (G0 inp)"
    and "nrow (G2 inp) = nrow (G0 inp)" "ncol (G2 inp) = ncol (G0 inp)"
  shows "\<exists>Qm. Q inp = Inr Qm \<and> nrow Qm = nrow (G0 inp) \<and> ncol Qm = ncol (G0 inp) \<and>
    (\<forall>i j. cell Qm i j =
        exp (log_kappa inp) ^ 4 * cell (G0 inp) i j
        + 2 * exp (log_kappa inp) ^ 2 * cell (G1 inp) i j + cell (G2 inp) i j) \<and>
    ((\<forall>i j. cell (G0 inp) i j = (if i = j then 1 else 0) \<and> cell (G1 inp) i j = 0
          \<and> cell (G2 inp) i j = 0)
      \<longrightarrow> (\<forall>i j. cell Qm i j = (if i = j then exp (log_kappa inp) ^ 4 else 0)))"
proof -
  have k2: "kappa2 inp = exp (log_kappa inp) ^ 2"
    by (simp add: kappa2_def exp_double)
  have k4: "kappa4 inp = exp (log_kappa inp) ^ 4"
    by (simp add: kappa4_def k2 power2_eq_square power4_eq_xxxx mult.assoc)
  show ?thesis
    by (simp add: Q_value [OF assms] Q_closed_def k2 k4)
qed

theorem precision_builder_witness:
  "\<exists>Qm. Q scenario = Inr Qm \<and> nrow Qm = 2 \<and> ncol Qm = 2 \<and>
     cell Qm 0 0 = 1 \<and> cell Qm 0 1 = 0 \<and> cell Qm 1 0 = 0 \<and> cell Qm 1 1 = 1"
proof -
  from precision_builder [of scenario] obtain Qm where "Q scenario = Inr Qm"
    and "nrow Qm = 2" "ncol Qm = 2"
    and "\<forall>i j. cell Qm i j = (if i = j then exp (log_kappa scenario) ^ 4 else 0)"
    by (auto simp: scenario_values)
  then show ?thesis by (simp add: scenario_values)
qed

subsection \<open>The Poisson-lognormal likelihood\<close>

text \<open>
  C3. With \<open>q = 1 - exp (- exp m / exp k)\<close>: for the count 0 the log-likelihood is
  \<open>ln (1 - q)\<close>, which is \<open>- exp m / exp k\<close>; for a positive count \<open>x\<close> it is
  \<open>ln q\<close> plus the log-density of the lognormal with location \<open>m - ln q\<close> and scale
  \<open>exp s\<close> at \<open>x\<close>, and that log-density is the normal log-density of \<open>ln x\<close>
  minus \<open>ln x\<close>.
\<close>

theorem poisson_lognormal_log_likelihood:
  "(let q = 1 - exp (- exp m / exp k) in
     d_poisson_lognormal dnorm 0 m s k 1 = Inr (ln (1 - q)) \<and>
     ln (1 - q) = - exp m / exp k \<and>
     (0 < x \<longrightarrow>
        d_poisson_lognormal dnorm x m s k 1 =
          Inr (ln q + (dnorm (ln x) (m - ln q) (exp s) 1 - ln x)) \<and>
        dlognorm dnorm x (m - ln q) s 1 = Inr (dnorm (ln x) (m - ln q) (exp s) 1 - ln x)))"
  by (simp add: d_poisson_lognormal_log dpln_closed_def dlognorm_log Let_def)

theorem poisson_lognormal_log_likelihood_witness:
  "d_poisson_lognormal (\<lambda>x mean sd give_log. x - mean) 0 0 0 0 1 = Inr (- 1) \<and>
   d_poisson_lognormal (\<lambda>x mean sd give_log. x - mean) 1 0 0 0 1 = Inr (2 * ln (1 - exp (- 1)))"
  using poisson_lognormal_log_likelihood [of 0 0 "\<lambda>x mean sd give_log. x - mean" 0 1]
  by (simp add: Let_def)

subsection \<open>The objective aggregator\<close>

text \<open>
  C4. For inputs of the documented extents: when no time index is negative and the first
  observation is at time 0, the function returns; and whenever it returns, the three
  components are the density of \<open>Omega_input\<close> under \<open>Q\<close>, the sum over the \<open>n_t\<close>
  columns of \<open>Epsilon_input\<close> of their density under the same \<open>Q\<close>, and the sum of
  \<open>jnll_i\<close>; the value returned and reported is the sum of the three; and \<open>jnll_i\<close> has
  one entry for each observation, which is 0 for a missing count, minus the Poisson
  log-likelihood for model 0, minus the Poisson-lognormal log-likelihood for model 1,
  and 0 for any other model.
\<close>

theorem objective_aggregator:
  assumes "shapes_ok inp"
  shows "(times_ok inp \<longrightarrow> (\<exists>v rep. objective_function GMRF dpois dnorm inp = Inr (v, rep))) \<and>
    (\<forall>v rep. objective_function GMRF dpois dnorm inp = Inr (v, rep) \<longrightarrow>
      (\<exists>Qm. Q inp = Inr Qm \<and>
         rep_jnll_comp rep =
           [GMRF Qm (Omega_input inp),
            (\<Sum>t<nat (n_t inp). GMRF Qm (column (Epsilon_input inp) t)),
            sum_list (rep_jnll_i rep)] \<and>
         v = GMRF Qm (Omega_input inp)
             + (\<Sum>t<nat (n_t inp). GMRF Qm (column (Epsilon_input inp) t))
             + sum_list (rep_jnll_i rep) \<and>
         rep_jnll rep = v) \<and>
      length (rep_jnll_i rep) = nat (n_i inp) \<and>
      (\<forall>i<nat (n_i inp).
         (isNA (c_i inp ! i) \<longrightarrow> rep_jnll_i rep ! i = 0) \<and>
         (\<forall>y. c_i inp ! i = Num y \<and> Options_vec inp ! 0 = 0 \<longrightarrow>
            (\<exists>l. rep_log_chat_i rep ! i = Some l \<and> rep_jnll_i rep ! i = - dpois y (exp l) 1)) \<and>
         (\<forall>y. c_i inp ! i = Num y \<and> Options_vec inp ! 0 = 1 \<longrightarrow>
            (\<exists>l d. rep_log_chat_i rep ! i = Some l \<and>
               d_poisson_lognormal dnorm y l (theta_z inp ! 0) (theta_z inp ! 1) 1 = Inr d \<and>
               rep_jnll_i rep ! i = - d)) \<and>
         (Options_vec inp ! 0 \<noteq> 0 \<and> Options_vec inp ! 0 \<noteq> 1 \<longrightarrow> rep_jnll_i rep ! i = 0)))"
proof (intro conjI allI impI)
  assume "times_ok inp"
  with assms show "\<exists>v rep. objective_function GMRF dpois dnorm inp = Inr (v, rep)"
    by (rule returns)
next
  fix v rep
  assume r: "objective_function GMRF dpois dnorm inp = Inr (v, rep)"
  note o = returned [OF assms r]
  show "\<exists>Qm. Q inp = Inr Qm \<and>
         rep_jnll_comp rep =
           [GMRF Qm (Omega_input inp),
            (\<Sum>t<nat (n_t inp). GMRF Qm (column (Epsilon_input inp) t)),
            sum_list (rep_jnll_i rep)] \<and>
         v = GMRF Qm (Omega_input inp)
             + (\<Sum>t<nat (n_t inp). GMRF Qm (column (Epsilon_input inp) t))
             + sum_list (rep_jnll_i rep) \<and>
         rep_jnll rep = v"
    using reported_sums [of GMRF dpois dnorm inp, folded o(2,3)] o(4) by simp
  show "length (rep_jnll_i rep) = nat (n_i inp)"
    unfolding o(2) by (rule reported_fields)
next
  fix v rep i
  assume r: "objective_function GMRF dpois dnorm inp = Inr (v, rep)" and i: "i < nat (n_i inp)"
  note o = returned [OF assms r]
  note c = contribution_at [OF assms o(1) i, where GMRF = GMRF and dpois = dpois and dnorm = dnorm,
      folded o(2)]
  {
    assume "isNA (c_i inp ! i)"
    with c(1) show "rep_jnll_i rep ! i = 0" by blast
  }
  {
    fix y assume "c_i inp ! i = Num y \<and> Options_vec inp ! 0 = 0"
    with c(2) show "\<exists>l. rep_log_chat_i rep ! i = Some l \<and> rep_jnll_i rep ! i = - dpois y (exp l) 1"
      by blast
  }
  {
    fix y assume "c_i inp ! i = Num y \<and> Options_vec inp ! 0 = 1"
    with c(3) show "\<exists>l d. rep_log_chat_i rep ! i = Some l \<and>
               d_poisson_lognormal dnorm y l (theta_z inp ! 0) (theta_z inp ! 1) 1 = Inr d \<and>
               rep_jnll_i rep ! i = - d"
      by blast
  }
  {
    assume "Options_vec inp ! 0 \<noteq> 0 \<and> Options_vec inp ! 0 \<noteq> 1"
    with c(4) show "rep_jnll_i rep ! i = 0" by blast
  }
qed

theorem objective_aggregator_witness:
  "(\<exists>v rep. objective_function (\<lambda>Q x. cell Q 0 0 + sum_list x) (\<lambda>x lambda give_log. x)
        (\<lambda>x mean sd give_log. 0) scenario = Inr (v, rep) \<and>
     rep_jnll_comp rep = [1, 3, sum_list (rep_jnll_i rep)] \<and>
     v = 4 + sum_list (rep_jnll_i rep) \<and> rep_jnll rep = v \<and>
     rep_jnll_i rep ! 0 = - 3 \<and> rep_jnll_i rep ! 1 = 0) \<and>
   (\<exists>v rep l d. objective_function (\<lambda>Q x. 0) (\<lambda>x lambda give_log. 0)
        (\<lambda>x mean sd give_log. 0) lognormal_scenario = Inr (v, rep) \<and>
     rep_log_chat_i rep ! 0 = Some l \<and>
     d_poisson_lognormal (\<lambda>x mean sd give_log. 0) 3 l 0 0 1 = Inr d \<and>
     rep_jnll_i rep ! 0 = - d)"
proof -
  let ?G = "\<lambda>Q x. cell Q 0 0 + sum_list x" and ?p = "\<lambda>x lambda give_log. x"
    and ?n = "\<lambda>x mean sd give_log. 0 :: real"
  let ?run = "objective_function ?G ?p ?n scenario"
  note a = objective_aggregator [OF scenario_shapes, of ?G ?p ?n]
  from a scenario_times obtain v rep where r: "?run = Inr (v, rep)" by blast
  from a r obtain Qm where q: "Q scenario = Inr Qm"
    and comp: "rep_jnll_comp rep =
           [?G Qm (Omega_input scenario),
            (\<Sum>t<nat (n_t scenario). ?G Qm (column (Epsilon_input scenario) t)),
            sum_list (rep_jnll_i rep)]"
    and v: "v = ?G Qm (Omega_input scenario)
             + (\<Sum>t<nat (n_t scenario). ?G Qm (column (Epsilon_input scenario) t))
             + sum_list (rep_jnll_i rep)"
    and j: "rep_jnll rep = v"
    by blast
  from a r have obs: "\<forall>i<nat (n_i scenario).
         (isNA (c_i scenario ! i) \<longrightarrow> rep_jnll_i rep ! i = 0) \<and>
         (\<forall>y. c_i scenario ! i = Num y \<and> Options_vec scenario ! 0 = 0 \<longrightarrow>
            (\<exists>l. rep_log_chat_i rep ! i = Some l \<and> rep_jnll_i rep ! i = - ?p y (exp l) 1))"
    by blast
  have "Q scenario = Inr (Q_closed scenario)"
    by (rule Q_value) (simp_all add: scenario_values)
  with q have "Qm = Q_closed scenario" by simp
  then have "cell Qm 0 0 = 1"
    by (simp add: Q_closed_def scenario_values kappa4_def kappa2_def)
  with comp v have 1: "rep_jnll_comp rep = [1, 3, sum_list (rep_jnll_i rep)]"
    and 2: "v = 4 + sum_list (rep_jnll_i rep)"
    by (simp_all add: scenario_values lessThan_Suc eval_nat_numeral)
  from obs [rule_format, of 0] have 3: "rep_jnll_i rep ! 0 = - 3"
    by (simp add: scenario_values)
  from obs [rule_format, of 1] have 4: "rep_jnll_i rep ! 1 = 0"
    by (simp add: scenario_values)
  let ?Z = "\<lambda>Q x. 0 :: real" and ?z = "\<lambda>x lambda give_log. 0 :: real"
  note b = objective_aggregator [OF more_variant_shapes(1), of ?Z ?z ?n]
  from b lognormal_times obtain v' rep'
    where r': "objective_function ?Z ?z ?n lognormal_scenario = Inr (v', rep')" by blast
  have "0 < nat (n_i lognormal_scenario)"
    "c_i lognormal_scenario ! 0 = Num 3 \<and> Options_vec lognormal_scenario ! 0 = 1"
    "theta_z lognormal_scenario ! 0 = 0" "theta_z lognormal_scenario ! 1 = 0"
    by (simp_all add: lognormal_scenario_def scenario_def)
  with b r' obtain l d where "rep_log_chat_i rep' ! 0 = Some l"
    "d_poisson_lognormal ?n 3 l 0 0 1 = Inr d" "rep_jnll_i rep' ! 0 = - d"
    by metis
  with r' have "\<exists>v rep l d. objective_function ?Z ?z ?n lognormal_scenario = Inr (v, rep) \<and>
     rep_log_chat_i rep ! 0 = Some l \<and> d_poisson_lognormal ?n 3 l 0 0 1 = Inr d \<and>
     rep_jnll_i rep ! 0 = - d"
    by blast
  moreover from r 1 2 3 4 j have "\<exists>v rep. ?run = Inr (v, rep) \<and>
     rep_jnll_comp rep = [1, 3, sum_list (rep_jnll_i rep)] \<and>
     v = 4 + sum_list (rep_jnll_i rep) \<and> rep_jnll rep = v \<and>
     rep_jnll_i rep ! 0 = - 3 \<and> rep_jnll_i rep ! 1 = 0"
    by blast
  ultimately show ?thesis by blast
qed

subsection \<open>Missing counts\<close>

text \<open>
  C5. For inputs of the documented extents: when no time index is negative and the first
  observation is at time 0, the function returns; and whenever it returns, every
  observation \<open>i\<close> with a missing count has \<open>jnll_i(i) = 0\<close>, its \<open>log_chat_i(i)\<close>
  is the value of the recursion, and an observation \<open>i + 1\<close> at a positive time takes
  \<open>rho\<close> times that value; an observation with the count 0 under model 0 contributes
  minus the Poisson log-likelihood of 0.
\<close>

theorem missing_data:
  assumes "shapes_ok inp"
  shows "(times_ok inp \<longrightarrow> (\<exists>v rep. objective_function GMRF dpois dnorm inp = Inr (v, rep))) \<and>
    (\<forall>v rep. objective_function GMRF dpois dnorm inp = Inr (v, rep) \<longrightarrow>
      (\<forall>i<nat (n_i inp). isNA (c_i inp ! i) \<longrightarrow>
         rep_jnll_i rep ! i = 0 \<and>
         (t_i inp ! i = 0 \<longrightarrow>
           (\<exists>q e. rep_Equil_x rep ! nat (x_s inp ! i) = Some q \<and>
              cell (rep_Epsilon_xt rep) (nat (x_s inp ! i)) 0 = Some e \<and>
              rep_log_chat_i rep ! i = Some (phi inp + q + e))) \<and>
         (0 < t_i inp ! i \<longrightarrow> 0 < i \<and>
           (\<exists>prev e w v. rep_log_chat_i rep ! (i - 1) = Some prev \<and>
              rep_eta_x rep ! nat (x_s inp ! i) = Some e \<and>
              rep_Omega_x rep ! nat (x_s inp ! i) = Some w \<and>
              cell (rep_Epsilon_xt rep) (nat (x_s inp ! i)) (nat (t_i inp ! i)) = Some v \<and>
              rep_log_chat_i rep ! i = Some (rho inp * prev + (e + w) + v))) \<and>
         (Suc i < nat (n_i inp) \<and> 0 < t_i inp ! Suc i \<longrightarrow>
           (\<exists>cur e w v. rep_log_chat_i rep ! i = Some cur \<and>
              rep_eta_x rep ! nat (x_s inp ! Suc i) = Some e \<and>
              rep_Omega_x rep ! nat (x_s inp ! Suc i) = Some w \<and>
              cell (rep_Epsilon_xt rep) (nat (x_s inp ! Suc i)) (nat (t_i inp ! Suc i)) = Some v \<and>
              rep_log_chat_i rep ! Suc i = Some (rho inp * cur + (e + w) + v)))) \<and>
      (\<forall>i<nat (n_i inp). c_i inp ! i = Num 0 \<and> Options_vec inp ! 0 = 0 \<longrightarrow>
         (\<exists>l. rep_log_chat_i rep ! i = Some l \<and> rep_jnll_i rep ! i = - dpois 0 (exp l) 1)))"
proof (intro conjI allI impI)
  assume "times_ok inp"
  with assms show "\<exists>v rep. objective_function GMRF dpois dnorm inp = Inr (v, rep)"
    by (rule returns)
next
  fix v rep i
  assume r: "objective_function GMRF dpois dnorm inp = Inr (v, rep)" and i: "i < nat (n_i inp)"
    and na: "isNA (c_i inp ! i)"
  note o = returned [OF assms r]
  note c = contribution_at [OF assms o(1) i, where GMRF = GMRF and dpois = dpois and dnorm = dnorm,
      folded o(2)]
  note rec = recursion_at [OF assms o(1) i, where GMRF = GMRF and dpois = dpois and dnorm = dnorm,
      folded o(2)]
  from c(1) na show "rep_jnll_i rep ! i = 0" by blast
  {
    assume "t_i inp ! i = 0"
    with rec(1) show "\<exists>q e. rep_Equil_x rep ! nat (x_s inp ! i) = Some q \<and>
              cell (rep_Epsilon_xt rep) (nat (x_s inp ! i)) 0 = Some e \<and>
              rep_log_chat_i rep ! i = Some (phi inp + q + e)" by blast
  }
  {
    assume "0 < t_i inp ! i"
    with rec(2) show "0 < i" by blast
  }
  {
    assume "0 < t_i inp ! i"
    with rec(2) show "\<exists>prev e w v. rep_log_chat_i rep ! (i - 1) = Some prev \<and>
              rep_eta_x rep ! nat (x_s inp ! i) = Some e \<and>
              rep_Omega_x rep ! nat (x_s inp ! i) = Some w \<and>
              cell (rep_Epsilon_xt rep) (nat (x_s inp ! i)) (nat (t_i inp ! i)) = Some v \<and>
              rep_log_chat_i rep ! i = Some (rho inp * prev + (e + w) + v)" by blast
  }
  {
    assume s: "Suc i < nat (n_i inp) \<and> 0 < t_i inp ! Suc i"
    then have "Suc i < nat (n_i inp)" by simp
    note nxt = recursion_at(2) [OF assms o(1) this, where GMRF = GMRF and dpois = dpois
        and dnorm = dnorm, folded o(2)]
    with s show "\<exists>cur e w v. rep_log_chat_i rep ! i = Some cur \<and>
              rep_eta_x rep ! nat (x_s inp ! Suc i) = Some e \<and>
              rep_Omega_x rep ! nat (x_s inp ! Suc i) = Some w \<and>
              cell (rep_Epsilon_xt rep) (nat (x_s inp ! Suc i)) (nat (t_i inp ! Suc i)) = Some v \<and>
              rep_log_chat_i rep ! Suc i = Some (rho inp * cur + (e + w) + v)"
      by simp
  }
next
  fix v rep i
  assume r: "objective_function GMRF dpois dnorm inp = Inr (v, rep)" and i: "i < nat (n_i inp)"
    and z: "c_i inp ! i = Num 0 \<and> Options_vec inp ! 0 = 0"
  note o = returned [OF assms r]
  from contribution_at(2) [OF assms o(1) i, where GMRF = GMRF and dpois = dpois and dnorm = dnorm
      and y = 0, folded o(2)] z
  show "\<exists>l. rep_log_chat_i rep ! i = Some l \<and> rep_jnll_i rep ! i = - dpois 0 (exp l) 1"
    by blast
qed

theorem missing_data_witness:
  "\<exists>v rep. objective_function (\<lambda>Q x. 0) (\<lambda>x lambda give_log. x * ln lambda - lambda)
        (\<lambda>x mean sd give_log. 0) scenario = Inr (v, rep) \<and>
     rep_jnll_i rep ! 1 = 0 \<and> rep_log_chat_i rep ! 1 = Some (521 / 700) \<and>
     rep_log_chat_i rep ! 2 = Some (5063 / 7000) \<and> rep_jnll_i rep ! 2 = exp (5063 / 7000)"
proof -
  let ?G = "\<lambda>Q x. 0 :: real" and ?p = "\<lambda>x lambda give_log. x * ln lambda - lambda :: real"
    and ?n = "\<lambda>x mean sd give_log. 0 :: real"
  note a = missing_data [OF scenario_shapes, of ?G ?p ?n]
  from a scenario_times obtain v rep
    where r: "objective_function ?G ?p ?n scenario = Inr (v, rep)" by blast
  note o = returned [OF scenario_shapes r]
  note f = reported_fields [where inp = scenario and GMRF = ?G and dpois = ?p and dnorm = ?n,
      folded o(2)]
  have fields: "rep_log_chat_i rep ! 0 = Some (57 / 70)"
    "rep_eta_x rep ! 0 = Some (1 / 2)" "rep_Omega_x rep ! 0 = Some 0"
    "cell (rep_Epsilon_xt rep) 0 (Suc 0) = Some 0" "cell (rep_Epsilon_xt rep) 0 2 = Some 0"
    by (simp_all add: f scenario_values scenario_fields start_def)
  from a r have na: "\<forall>i<nat (n_i scenario). isNA (c_i scenario ! i) \<longrightarrow>
         rep_jnll_i rep ! i = 0 \<and>
         (0 < t_i scenario ! i \<longrightarrow> 0 < i \<and>
           (\<exists>prev e w v. rep_log_chat_i rep ! (i - 1) = Some prev \<and>
              rep_eta_x rep ! nat (x_s scenario ! i) = Some e \<and>
              rep_Omega_x rep ! nat (x_s scenario ! i) = Some w \<and>
              cell (rep_Epsilon_xt rep) (nat (x_s scenario ! i)) (nat (t_i scenario ! i)) = Some v \<and>
              rep_log_chat_i rep ! i = Some (rho scenario * prev + (e + w) + v))) \<and>
         (Suc i < nat (n_i scenario) \<and> 0 < t_i scenario ! Suc i \<longrightarrow>
           (\<exists>cur e w v. rep_log_chat_i rep ! i = Some cur \<and>
              rep_eta_x rep ! nat (x_s scenario ! Suc i) = Some e \<and>
              rep_Omega_x rep ! nat (x_s scenario ! Suc i) = Some w \<and>
              cell (rep_Epsilon_xt rep) (nat (x_s scenario ! Suc i)) (nat (t_i scenario ! Suc i)) = Some v \<and>
              rep_log_chat_i rep ! Suc i = Some (rho scenario * cur + (e + w) + v)))"
    and zero: "\<forall>i<nat (n_i scenario). c_i scenario ! i = Num 0 \<and> Options_vec scenario ! 0 = 0 \<longrightarrow>
         (\<exists>l. rep_log_chat_i rep ! i = Some l \<and> rep_jnll_i rep ! i = - ?p 0 (exp l) 1)"
    by blast+
  have inst: "1 < nat (n_i scenario)" "isNA (c_i scenario ! 1)" "0 < t_i scenario ! 1"
    "Suc 1 < nat (n_i scenario) \<and> 0 < t_i scenario ! Suc 1"
    by (simp_all add: scenario_values)
  have idx: "nat (x_s scenario ! 1) = 0" "nat (t_i scenario ! 1) = Suc 0" "1 - 1 = (0::nat)"
    "nat (x_s scenario ! 2) = 0" "nat (t_i scenario ! 2) = 2" "Suc 1 = 2"
    "rho scenario = 3 / 10"
    by (simp_all add: scenario_values)
  note at1 = na [rule_format, OF inst(1,2), unfolded idx]
  from at1 have 1: "rep_jnll_i rep ! 1 = 0" by blast
  from at1 inst(3) obtain prev e w v1 where "rep_log_chat_i rep ! 0 = Some prev"
    "rep_eta_x rep ! 0 = Some e" "rep_Omega_x rep ! 0 = Some w"
    "cell (rep_Epsilon_xt rep) 0 (Suc 0) = Some v1"
    "rep_log_chat_i rep ! 1 = Some (3 / 10 * prev + (e + w) + v1)"
    by blast
  with fields have 4: "rep_log_chat_i rep ! 1 = Some (521 / 700)" by simp
  from at1 inst(4) [unfolded idx] obtain cur e w v2 where "rep_log_chat_i rep ! 1 = Some cur"
    "rep_eta_x rep ! 0 = Some e" "rep_Omega_x rep ! 0 = Some w"
    "cell (rep_Epsilon_xt rep) 0 2 = Some v2"
    "rep_log_chat_i rep ! 2 = Some (3 / 10 * cur + (e + w) + v2)"
    by blast
  with fields 4 have 5: "rep_log_chat_i rep ! 2 = Some (5063 / 7000)" by simp
  have "2 < nat (n_i scenario)" "c_i scenario ! 2 = Num 0 \<and> Options_vec scenario ! 0 = 0"
    by (simp_all add: scenario_values)
  from zero [rule_format, OF this] 5 have 6: "rep_jnll_i rep ! 2 = exp (5063 / 7000)"
    by auto
  from r 1 4 5 6 show ?thesis by blast
qed

subsection \<open>Model flags and indices that nothing checks\<close>




subsection \<open>The field scaler\<close>

text \<open>
  C7. For inputs of the documented extents and \<open>rho \<noteq> 1\<close>: when no time index is
  negative and the first observation is at time 0, the function returns; and whenever
  it returns, \<open>eta_x\<close> is the product of \<open>X_xp\<close> and \<open>alpha\<close>, and at every vertex
  \<open>x\<close> and time \<open>t\<close>: \<open>Omega_x(x) = Omega_input(x) / exp log_tau_O\<close>,
  \<open>Equil_x(x) = (eta_x(x) + Omega_x(x)) / (1 - rho)\<close> and
  \<open>Epsilon_xt(x,t) = Epsilon_input(x,t) / exp log_tau_E\<close>.
\<close>

theorem field_scaler:
  assumes "shapes_ok inp" and "rho inp \<noteq> 1"
  shows "(times_ok inp \<longrightarrow> (\<exists>v rep. objective_function GMRF dpois dnorm inp = Inr (v, rep))) \<and>
    (\<forall>v rep. objective_function GMRF dpois dnorm inp = Inr (v, rep) \<longrightarrow>
      (\<exists>eta. times_vec (X_xp inp) (alpha inp) = Inr eta \<and> rep_eta_x rep = map Some eta \<and>
        (\<forall>x<nat (n_x inp).
           eta ! x = (\<Sum>p\<leftarrow>[0..<length (alpha inp)]. cell (X_xp inp) x p * alpha inp ! p) \<and>
           rep_Omega_x rep ! x = Some (Omega_input inp ! x / exp (log_tau_O inp)) \<and>
           rep_Equil_x rep ! x =
             Some ((eta ! x + Omega_input inp ! x / exp (log_tau_O inp)) / (1 - rho inp)) \<and>
           (\<forall>t<nat (n_t inp).
              cell (rep_Epsilon_xt rep) x t =
                Some (cell (Epsilon_input inp) x t / exp (log_tau_E inp))))))"
proof (intro conjI allI impI)
  assume "times_ok inp"
  with assms(1) show "\<exists>v rep. objective_function GMRF dpois dnorm inp = Inr (v, rep)"
    by (rule returns)
next
  fix v rep
  assume r: "objective_function GMRF dpois dnorm inp = Inr (v, rep)"
  note o = returned [OF assms(1) r]
  note f = reported_fields [where GMRF = GMRF and dpois = dpois and dnorm = dnorm and inp = inp,
      folded o(2)]
  have a: "ncol (X_xp inp) = length (alpha inp)" and n: "nat (n_x inp) \<le> nrow (X_xp inp)"
    using assms(1) by (simp_all add: shapes_ok_def)
  have "times_vec (X_xp inp) (alpha inp) = Inr (eta_closed inp)"
    by (rule times_vec_value [OF a])
  moreover have "rep_eta_x rep = map Some (eta_closed inp)" by (rule f(1))
  moreover have "\<forall>x<nat (n_x inp).
           eta_closed inp ! x = (\<Sum>p\<leftarrow>[0..<length (alpha inp)]. cell (X_xp inp) x p * alpha inp ! p) \<and>
           rep_Omega_x rep ! x = Some (Omega_input inp ! x / exp (log_tau_O inp)) \<and>
           rep_Equil_x rep ! x =
             Some ((eta_closed inp ! x + Omega_input inp ! x / exp (log_tau_O inp)) / (1 - rho inp)) \<and>
           (\<forall>t<nat (n_t inp).
              cell (rep_Epsilon_xt rep) x t =
                Some (cell (Epsilon_input inp) x t / exp (log_tau_E inp)))"
  proof (intro allI impI)
    fix x assume x: "x < nat (n_x inp)"
    with n have "x < nrow (X_xp inp)" by simp
    from eta_closed_nth [OF this] a x
    show "eta_closed inp ! x = (\<Sum>p\<leftarrow>[0..<length (alpha inp)]. cell (X_xp inp) x p * alpha inp ! p) \<and>
           rep_Omega_x rep ! x = Some (Omega_input inp ! x / exp (log_tau_O inp)) \<and>
           rep_Equil_x rep ! x =
             Some ((eta_closed inp ! x + Omega_input inp ! x / exp (log_tau_O inp)) / (1 - rho inp)) \<and>
           (\<forall>t<nat (n_t inp).
              cell (rep_Epsilon_xt rep) x t =
                Some (cell (Epsilon_input inp) x t / exp (log_tau_E inp)))"
      by (simp add: f Omega_closed_def Equil_closed_def Epsilon_closed_def)
  qed
  ultimately show "\<exists>eta. times_vec (X_xp inp) (alpha inp) = Inr eta \<and> rep_eta_x rep = map Some eta \<and>
        (\<forall>x<nat (n_x inp).
           eta ! x = (\<Sum>p\<leftarrow>[0..<length (alpha inp)]. cell (X_xp inp) x p * alpha inp ! p) \<and>
           rep_Omega_x rep ! x = Some (Omega_input inp ! x / exp (log_tau_O inp)) \<and>
           rep_Equil_x rep ! x =
             Some ((eta ! x + Omega_input inp ! x / exp (log_tau_O inp)) / (1 - rho inp)) \<and>
           (\<forall>t<nat (n_t inp).
              cell (rep_Epsilon_xt rep) x t =
                Some (cell (Epsilon_input inp) x t / exp (log_tau_E inp))))"
    by blast
qed

theorem field_scaler_witness:
  "\<exists>v rep. objective_function (\<lambda>Q x. 0) (\<lambda>x lambda give_log. 0) (\<lambda>x mean sd give_log. 0)
        scaled_scenario = Inr (v, rep) \<and>
     rep_eta_x rep = [Some (1 / 2), Some (1 / 2)] \<and>
     rep_Omega_x rep ! 0 = Some 1 \<and> rep_Omega_x rep ! 1 = Some 2 \<and>
     rep_Equil_x rep ! 0 = Some (15 / 7) \<and> cell (rep_Epsilon_xt rep) 1 2 = Some 1"
proof -
  let ?G = "\<lambda>Q x. 0 :: real" and ?p = "\<lambda>x lambda give_log. 0 :: real"
    and ?n = "\<lambda>x mean sd give_log. 0 :: real"
  have rho: "rho scaled_scenario \<noteq> 1" by (simp add: scaled_scenario_def scenario_def)
  note a = field_scaler [OF variant_shapes(1) rho, of ?G ?p ?n]
  from a variant_times(1) obtain v rep
    where r: "objective_function ?G ?p ?n scaled_scenario = Inr (v, rep)" by blast
  from a r obtain eta where eta: "times_vec (X_xp scaled_scenario) (alpha scaled_scenario) = Inr eta"
    and rep_eta: "rep_eta_x rep = map Some eta"
    and all: "\<forall>x<nat (n_x scaled_scenario).
           eta ! x = (\<Sum>p\<leftarrow>[0..<length (alpha scaled_scenario)].
                         cell (X_xp scaled_scenario) x p * alpha scaled_scenario ! p) \<and>
           rep_Omega_x rep ! x =
             Some (Omega_input scaled_scenario ! x / exp (log_tau_O scaled_scenario)) \<and>
           rep_Equil_x rep ! x =
             Some ((eta ! x + Omega_input scaled_scenario ! x / exp (log_tau_O scaled_scenario))
                   / (1 - rho scaled_scenario)) \<and>
           (\<forall>t<nat (n_t scaled_scenario).
              cell (rep_Epsilon_xt rep) x t =
                Some (cell (Epsilon_input scaled_scenario) x t / exp (log_tau_E scaled_scenario)))"
    by blast
  from eta have "eta = [1 / 2, 1 / 2]"
    by (simp add: times_vec_def scaled_scenario_def scenario_def upt_rec)
  with rep_eta have 1: "rep_eta_x rep = [Some (1 / 2), Some (1 / 2)]" by simp
  from all [rule_format, of 0] all [rule_format, of 1] \<open>eta = [1 / 2, 1 / 2]\<close>
  have "rep_Omega_x rep ! 0 = Some 1 \<and> rep_Omega_x rep ! 1 = Some 2 \<and>
     rep_Equil_x rep ! 0 = Some (15 / 7) \<and> cell (rep_Epsilon_xt rep) 1 2 = Some 1"
    by (simp add: scaled_scenario_def scenario_def)
  with r 1 show ?thesis by blast
qed

subsection \<open>The summary statistics\<close>

text \<open>
  C8. The range is \<open>sqrt 8 / exp log_kappa\<close>. The two marginal standard deviations are
  computed with the constant 3.141592 in the place of \<open>\<pi>\<close>, and are therefore
  strictly larger than the values that the formula with \<open>\<pi>\<close> gives.
\<close>

theorem summary_statistics:
  "Range_c inp = sqrt 8 / exp (log_kappa inp) \<and>
   SigmaE inp = 1 / sqrt (4 * 3.141592 * exp (2 * log_tau_E inp) * exp (2 * log_kappa inp)) \<and>
   SigmaO inp = 1 / sqrt (4 * 3.141592 * exp (2 * log_tau_O inp) * exp (2 * log_kappa inp)) \<and>
   1 / sqrt (4 * pi * exp (2 * log_tau_E inp) * exp (2 * log_kappa inp)) < SigmaE inp \<and>
   1 / sqrt (4 * pi * exp (2 * log_tau_O inp) * exp (2 * log_kappa inp)) < SigmaO inp"
proof -
  have "1 / sqrt (4 * pi * exp (2 * log_tau_E inp) * exp (2 * log_kappa inp)) < SigmaE inp"
    unfolding SigmaE_def by (rule Sigma_less) simp_all
  moreover have "1 / sqrt (4 * pi * exp (2 * log_tau_O inp) * exp (2 * log_kappa inp)) < SigmaO inp"
    unfolding SigmaO_def by (rule Sigma_less) simp_all
  ultimately show ?thesis
    by (simp add: Range_c_def SigmaE_def SigmaO_def pi_c_def)
qed

theorem summary_statistics_witness:
  "Range_c scenario = sqrt 8 \<and>
   SigmaE scenario = 1 / sqrt (4 * 3.141592) \<and> SigmaO scenario = 1 / sqrt (4 * 3.141592) \<and>
   1 / sqrt (4 * pi) < SigmaE scenario \<and> 1 / sqrt (4 * pi) < SigmaO scenario"
  using summary_statistics [of scenario] by (simp add: scenario_def)

subsection \<open>The reads and writes of log_chat_i\<close>

text \<open>
  C10, as the code has it. For inputs of the documented extents the function returns,
  that is every read and write of \<open>log_chat_i\<close> is in bounds and reads an assigned entry,
  if and only if every observation at a positive time has a predecessor whose time
  index is not negative, and every observation at a negative time has a missing count
  or a model flag that is neither 0 nor 1. Time indices that are not negative, the
  first of them 0, are sufficient. When the first observation is at a positive time the
  function reads \<open>log_chat_i(-1)\<close>. The function stops in no other way than on
  \<open>log_chat_i(-1)\<close> or on an entry of \<open>log_chat_i\<close> that was not assigned; and when
  it returns, the entry of every observation at a negative time is left unassigned.
\<close>

theorem log_chat_safety:
  assumes "shapes_ok inp"
  shows "((\<exists>v rep. objective_function GMRF dpois dnorm inp = Inr (v, rep)) \<longleftrightarrow>
       (\<forall>i<nat (n_i inp).
          (0 < t_i inp ! i \<longrightarrow> 0 < i \<and> 0 \<le> t_i inp ! (i - 1)) \<and>
          (t_i inp ! i < 0 \<longrightarrow>
             isNA (c_i inp ! i) \<or> (Options_vec inp ! 0 \<noteq> 0 \<and> Options_vec inp ! 0 \<noteq> 1)))) \<and>
    (times_ok inp \<longrightarrow> (\<exists>v rep. objective_function GMRF dpois dnorm inp = Inr (v, rep))) \<and>
    (0 < n_i inp \<and> 0 < t_i inp ! 0 \<longrightarrow>
       objective_function GMRF dpois dnorm inp = Inl (OutOfBounds ''log_chat_i'' (- 1))) \<and>
    (\<forall>e. objective_function GMRF dpois dnorm inp = Inl e \<longrightarrow>
       e = OutOfBounds ''log_chat_i'' (- 1) \<or>
       (\<exists>j. 0 \<le> j \<and> j < n_i inp \<and> e = Uninitialised ''log_chat_i'' j)) \<and>
    (\<forall>v rep i. objective_function GMRF dpois dnorm inp = Inr (v, rep) \<and> i < nat (n_i inp)
         \<and> t_i inp ! i < 0 \<longrightarrow> rep_log_chat_i rep ! i = None)"
proof (intro conjI allI impI)
  show "(\<exists>v rep. objective_function GMRF dpois dnorm inp = Inr (v, rep)) \<longleftrightarrow>
       (\<forall>i<nat (n_i inp).
          (0 < t_i inp ! i \<longrightarrow> 0 < i \<and> 0 \<le> t_i inp ! (i - 1)) \<and>
          (t_i inp ! i < 0 \<longrightarrow>
             isNA (c_i inp ! i) \<or> (Options_vec inp ! 0 \<noteq> 0 \<and> Options_vec inp ! 0 \<noteq> 1)))"
    unfolding chain_ok_iff [symmetric]
  proof
    assume "\<exists>v rep. objective_function GMRF dpois dnorm inp = Inr (v, rep)"
    then obtain v rep where "objective_function GMRF dpois dnorm inp = Inr (v, rep)" by blast
    from returned(1) [OF assms this] show "\<forall>i<nat (n_i inp). chain_ok inp i" .
  next
    assume "\<forall>i<nat (n_i inp). chain_ok inp i"
    from objective_function_value [OF assms this, of GMRF dpois dnorm]
    show "\<exists>v rep. objective_function GMRF dpois dnorm inp = Inr (v, rep)"
      by (metis surjective_pairing)
  qed
next
  assume "times_ok inp"
  with assms show "\<exists>v rep. objective_function GMRF dpois dnorm inp = Inr (v, rep)"
    by (rule returns)
next
  assume a: "0 < n_i inp \<and> 0 < t_i inp ! 0"
  then have "0 < nat (n_i inp)" "\<forall>i<(0::nat). chain_ok inp i" "\<not> chain_ok inp 0"
    by (simp_all add: chain_ok_def)
  from objective_function_fault [OF assms this, of GMRF dpois dnorm] a
  show "objective_function GMRF dpois dnorm inp = Inl (OutOfBounds ''log_chat_i'' (- 1))"
    by (simp add: fault_at_def)
next
  fix e
  assume e: "objective_function GMRF dpois dnorm inp = Inl e"
  have "\<not> (\<forall>i<nat (n_i inp). chain_ok inp i)"
  proof
    assume "\<forall>i<nat (n_i inp). chain_ok inp i"
    from objective_function_value [OF assms this, of GMRF dpois dnorm] e show False by simp
  qed
  from first_broken [OF this] obtain k where k: "k < nat (n_i inp)" "\<forall>i<k. chain_ok inp i"
    "\<not> chain_ok inp k" by blast
  from objective_function_fault [OF assms k, of GMRF dpois dnorm] e
  have "e = fault_at inp k" by simp
  with fault_at_cases [OF k(1)]
  show "e = OutOfBounds ''log_chat_i'' (- 1) \<or>
       (\<exists>j. 0 \<le> j \<and> j < n_i inp \<and> e = Uninitialised ''log_chat_i'' j)" by simp
next
  fix v rep i
  assume a: "objective_function GMRF dpois dnorm inp = Inr (v, rep) \<and> i < nat (n_i inp)
         \<and> t_i inp ! i < 0"
  then have r: "objective_function GMRF dpois dnorm inp = Inr (v, rep)" by simp
  note o = returned [OF assms r]
  from a show "rep_log_chat_i rep ! i = None"
    unfolding o(2) by (simp add: reported_fields chat_closed_None)
qed

theorem log_chat_safety_witness:
  "(\<exists>v rep. objective_function (\<lambda>Q x. 0) (\<lambda>x lambda give_log. 0) (\<lambda>x mean sd give_log. 0)
        negative_time_scenario = Inr (v, rep) \<and> rep_log_chat_i rep ! 1 = None) \<and>
   objective_function (\<lambda>Q x. 0) (\<lambda>x lambda give_log. 0) (\<lambda>x mean sd give_log. 0)
        late_start_scenario = Inl (OutOfBounds ''log_chat_i'' (- 1)) \<and>
   (\<exists>j. objective_function (\<lambda>Q x. 0) (\<lambda>x lambda give_log. 0) (\<lambda>x mean sd give_log. 0)
        unassigned_predecessor_scenario = Inl (Uninitialised ''log_chat_i'' j))"
proof -
  let ?G = "\<lambda>Q x. 0 :: real" and ?p = "\<lambda>x lambda give_log. 0 :: real"
    and ?n = "\<lambda>x mean sd give_log. 0 :: real"
  note a = log_chat_safety [OF variant_shapes(3), of ?G ?p ?n]
  have "\<forall>i<nat (n_i negative_time_scenario).
          (0 < t_i negative_time_scenario ! i \<longrightarrow> 0 < i \<and> 0 \<le> t_i negative_time_scenario ! (i - 1)) \<and>
          (t_i negative_time_scenario ! i < 0 \<longrightarrow>
             isNA (c_i negative_time_scenario ! i) \<or>
             (Options_vec negative_time_scenario ! 0 \<noteq> 0 \<and> Options_vec negative_time_scenario ! 0 \<noteq> 1))"
    by (auto simp: negative_time_scenario_def scenario_def less_4)
  with a obtain v rep
    where r: "objective_function ?G ?p ?n negative_time_scenario = Inr (v, rep)"
    by blast
  have "1 < nat (n_i negative_time_scenario)" "t_i negative_time_scenario ! 1 < 0"
    by (simp_all add: negative_time_scenario_def scenario_def)
  with a r have "rep_log_chat_i rep ! 1 = None" by blast
  with r have 1: "\<exists>v rep. objective_function ?G ?p ?n negative_time_scenario = Inr (v, rep)
      \<and> rep_log_chat_i rep ! 1 = None"
    by blast
  have "0 < n_i late_start_scenario \<and> 0 < t_i late_start_scenario ! 0"
    by (simp add: late_start_scenario_def scenario_def)
  with log_chat_safety [OF variant_shapes(4), of ?G ?p ?n]
  have 2: "objective_function ?G ?p ?n late_start_scenario = Inl (OutOfBounds ''log_chat_i'' (- 1))"
    by blast
  note c = log_chat_safety [OF more_variant_shapes(2), of ?G ?p ?n]
  have "2 < nat (n_i unassigned_predecessor_scenario)"
    "0 < t_i unassigned_predecessor_scenario ! 2"
    "\<not> 0 \<le> t_i unassigned_predecessor_scenario ! (2 - 1)"
    by (simp_all add: unassigned_predecessor_scenario_def scenario_def)
  with c have no: "\<not> (\<exists>v rep. objective_function ?G ?p ?n unassigned_predecessor_scenario = Inr (v, rep))"
    by blast
  then obtain e where e: "objective_function ?G ?p ?n unassigned_predecessor_scenario = Inl e"
    by (cases "objective_function ?G ?p ?n unassigned_predecessor_scenario") auto
  have "objective_function ?G ?p ?n unassigned_predecessor_scenario
      \<noteq> Inl (OutOfBounds ''log_chat_i'' (- 1))"
  proof -
    have "\<forall>i<2. chain_ok unassigned_predecessor_scenario i" "\<not> chain_ok unassigned_predecessor_scenario 2"
      by (auto simp: chain_ok_def unassigned_predecessor_scenario_def scenario_def less_Suc_eq
          numeral_2_eq_2)
    from objective_function_fault [OF more_variant_shapes(2) \<open>2 < nat (n_i unassigned_predecessor_scenario)\<close> this,
        of ?G ?p ?n]
    show ?thesis by (simp add: fault_at_def unassigned_predecessor_scenario_def scenario_def)
  qed
  with c e have 3: "\<exists>j. objective_function ?G ?p ?n unassigned_predecessor_scenario
      = Inl (Uninitialised ''log_chat_i'' j)"
    by blast
  from 1 2 3 show ?thesis by blast
qed

text \<open>
  C10 as it is stated fails on \<open>negative_time_scenario\<close>: the second observation
  has the time index \<open>-1\<close> and a missing count, the third is at time 0, and the
  function returns with the second entry of \<open>log_chat_i\<close> never assigned and never read.
\<close>

theorem log_chat_safety_counterexample:
  "t_i negative_time_scenario ! 1 < 0 \<and>
   \<not> isl (objective_function unit_gmrf unit_dpois unit_dnorm negative_time_scenario) \<and>
   rep_log_chat_i (snd (projr (objective_function unit_gmrf unit_dpois unit_dnorm
      negative_time_scenario))) ! 1 = None"
proof -
  have t: "t_i negative_time_scenario ! 1 < 0" "1 < nat (n_i negative_time_scenario)"
    by (simp_all add: negative_time_scenario_def scenario_def)
  then have "rep_log_chat_i (snd (reported unit_gmrf unit_dpois unit_dnorm negative_time_scenario)) ! 1
      = None"
    by (simp add: reported_fields chat_closed_None)
  with objective_function_value [OF variant_shapes(3) negative_time_chain,
      of unit_gmrf unit_dpois unit_dnorm] t(1)
  show ?thesis by simp
qed

end
